theory Spec2Isabelle
  imports Complex_Main
begin

section \<open>Shared data: detections, points, errors\<close>

text \<open>
  The C++ \<open>float\<close> is modelled by \<open>real\<close>: rounding, infinities and NaN are not
  part of the model, so a quotient is the float's only where the divisor is not zero.
  \<open>int\<close> and \<open>size_t\<close> values are modelled by \<open>int\<close> and \<open>nat\<close>; none of the
  properties below depends on overflow. Of the loops that the source runs with
  \<open>std::execution::par_unseq\<close>, the one over the cloud, whose iterations read and write
  the same background pixels, is modelled with its interleavings (\<open>run_schedule\<close>) as well
  as in the order of the cloud (\<open>update_points\<close>); the others are modelled in the order
  of their ranges.
\<close>

type_synonym point3 = "real \<times> real \<times> real"

text \<open>\<open>Detection { float x, y, width, height; int label; float confidence; }\<close>\<close>

record Detection =
  d_x :: real
  d_y :: real
  d_width :: real
  d_height :: real
  d_label :: int
  d_confidence :: real

text \<open>\<open>cv::Rect2f\<close>: x, y, width, height.\<close>

type_synonym rect2f = "real \<times> real \<times> real \<times> real"

datatype TrackState = Tentative | Confirmed | Deleted

text \<open>
  What aborts the C++ program: an index outside an Eigen vector, a \<open>std::vector\<close> or
  a \<open>cv::Mat\<close>, \<open>std::optional::value\<close> on an empty optional, \<open>std::map::at\<close>
  on a missing key, a failed \<open>assert\<close>.
\<close>

datatype error = IndexOutOfRange | BadOptionalAccess | KeyNotFound | AssertionFailed

text \<open>
  Modelled from the spec: \<open>iszero\<close> is declared outside the given sources; the spec
  reads \<open>iszero(sum)\<close> as "the sum is zero" and \<open>iszero(value)\<close> as "the pixel is
  zero".
\<close>

definition iszero_float :: "real \<Rightarrow> bool" where
  "iszero_float v = (v = 0)"

section \<open>Ordered maps with integer keys (\<open>std::map<int, T>\<close>)\<close>

text \<open>
  An association list kept in ascending key order, which is the order in which
  \<open>std::map\<close> is iterated. \<open>map_modify k f d m\<close> is \<open>m[k] = f(m[k])\<close>, where
  \<open>operator[]\<close> inserts the value-initialised \<open>d\<close> for a missing key.
\<close>

fun map_modify :: "int \<Rightarrow> ('v \<Rightarrow> 'v) \<Rightarrow> 'v \<Rightarrow> (int \<times> 'v) list \<Rightarrow> (int \<times> 'v) list" where
  "map_modify k f d [] = [(k, f d)]"
| "map_modify k f d ((k', v) # m) =
     (if k < k' then (k, f d) # (k', v) # m
      else if k = k' then (k', f v) # m
      else (k', v) # map_modify k f d m)"

text \<open>
  \<open>std::max_element\<close> with a comparator: the first of the largest elements; \<open>None\<close>
  stands for the end iterator of an empty range.
\<close>

fun max_element :: "('a \<Rightarrow> 'a \<Rightarrow> bool) \<Rightarrow> 'a list \<Rightarrow> 'a option" where
  "max_element cmp [] = None"
| "max_element cmp (a # as) =
     Some (fold (\<lambda>b largest. if cmp largest b then b else largest) as a)"

section \<open>Robot (robot.cpp)\<close>

record Robot =
  r_rect :: "rect2f option"
  r_label :: "int option"
  r_confidence :: "real option"
  r_armors :: "Detection list option"
  r_location :: "point3 option"
  r_track_state :: "TrackState option"

text \<open>A default-constructed Robot: every optional is empty.\<close>

definition empty_Robot :: Robot where
  "empty_Robot = \<lparr>r_rect = None, r_label = None, r_confidence = None,
     r_armors = None, r_location = None, r_track_state = None\<rparr>"

text \<open>
  Modelled from the spec: \<open>isDetected\<close> and \<open>isLocated\<close> are declared in robot.h,
  which is not among the sources; the spec gives
  \<open>isDetected() \<Leftrightarrow> label.present\<close> and \<open>isLocated() \<Leftrightarrow> location.present\<close>.
\<close>

definition isDetected :: "Robot \<Rightarrow> bool" where
  "isDetected r = (r_label r \<noteq> None)"

definition isLocated :: "Robot \<Rightarrow> bool" where
  "isLocated r = (r_location r \<noteq> None)"

definition setLocation :: "point3 \<Rightarrow> Robot \<Rightarrow> Robot" where
  "setLocation p r = r\<lparr>r_location := Some p\<rparr>"

subsection \<open>\<open>Robot::setDetection\<close>\<close>

text \<open>The loop \<open>score_map[armor.label] += armor.confidence\<close>.\<close>

definition score_map_of :: "Detection list \<Rightarrow> (int \<times> real) list" where
  "score_map_of armors =
     fold (\<lambda>armor m. map_modify (d_label armor) (\<lambda>s. s + d_confidence armor) 0 m) armors []"

text \<open>\<open>std::count_if(armors, armor.label == label)\<close>\<close>

definition count_label :: "int \<Rightarrow> Detection list \<Rightarrow> nat" where
  "count_label l armors = length (filter (\<lambda>armor. d_label armor = l) armors)"

definition shift_armor :: "Detection \<Rightarrow> Detection \<Rightarrow> Detection" where
  "shift_armor car armor =
     armor\<lparr>d_x := d_x armor + d_x car, d_y := d_y armor + d_y car\<rparr>"

definition setDetection :: "Detection \<Rightarrow> Detection list \<Rightarrow> Robot \<Rightarrow> Robot" where
  "setDetection car armors r =
     (let r1 = r\<lparr>r_rect := Some (d_x car, d_y car, d_width car, d_height car)\<rparr>
      in if armors = [] then r1
         else case max_element (\<lambda>pair_a pair_b. snd pair_a < snd pair_b) (score_map_of armors) of
             None \<Rightarrow> r1
           | Some (label, confidence) \<Rightarrow>
               r1\<lparr>r_label := Some label,
                  r_confidence := Some (confidence / real (count_label label armors)),
                  r_armors := Some (map (shift_armor car) armors)\<rparr>)"

text \<open>The constructor \<open>Robot(car, armors)\<close>.\<close>

definition new_Robot :: "Detection \<Rightarrow> Detection list \<Rightarrow> Robot" where
  "new_Robot car armors = setDetection car armors empty_Robot"

subsection \<open>\<open>Robot::feature\<close>\<close>

text \<open>
  \<open>feature(static_cast<int>(armor.label)) += armor.confidence\<close> on an
  \<open>Eigen::VectorXf\<close> of \<open>class_num\<close> entries: an index outside the vector is an error,
  and so is a vector of negative size.
\<close>

definition feature_add :: "Detection \<Rightarrow> real list \<Rightarrow> error + real list" where
  "feature_add armor feature =
     (if 0 \<le> d_label armor \<and> d_label armor < int (length feature)
      then Inr (feature[nat (d_label armor) := feature ! nat (d_label armor) + d_confidence armor])
      else Inl IndexOutOfRange)"

fun feature_loop :: "Detection list \<Rightarrow> real list \<Rightarrow> error + real list" where
  "feature_loop [] feature = Inr feature"
| "feature_loop (armor # armors) feature =
     (case feature_add armor feature of
        Inl e \<Rightarrow> Inl e
      | Inr feature' \<Rightarrow> feature_loop armors feature')"

definition feature :: "int \<Rightarrow> Robot \<Rightarrow> error + real list" where
  "feature class_num r =
     (let zero = replicate (nat class_num) 0
      in if class_num < 0 then Inl AssertionFailed
         else if \<not> isDetected r then Inr zero
         else case r_armors r of
             None \<Rightarrow> Inl BadOptionalAccess
           | Some armors \<Rightarrow>
               (case feature_loop armors zero of
                  Inl e \<Rightarrow> Inl e
                | Inr f \<Rightarrow>
                    (let sum = sum_list f
                     in if iszero_float sum then Inr f else Inr (map (\<lambda>v. v / sum) f))))"

section \<open>Track\<close>

text \<open>
  Modelled from the spec: the class \<open>Track\<close> that tracker.cpp and robot.cpp use
  (\<open>predict(timestamp)\<close>, \<open>update(location, feature)\<close>, \<open>label()\<close>,
  \<open>location()\<close>, \<open>feature()\<close>, the constructor) is not among the sources. Per the
  spec a track holds an id, a state, the counters \<open>init_count\<close> and \<open>miss_count\<close>
  and the filter's state; \<open>predict\<close> and \<open>update\<close> act on the filter and the
  feature, while the counters and the state are written by \<open>Tracker::update\<close> itself.
  The filter (with the feature and the time stamp it keeps) is the type parameter
  \<open>'f\<close>, and the members of \<open>Track\<close> that read or change it are the fields of
  \<open>'f Track_ops\<close>.
\<close>

record 'f Track =
  t_track_id :: int
  t_state :: TrackState
  t_init_count :: int
  t_miss_count :: int
  t_filter :: 'f

record 'f Track_ops =
  op_predict :: "int \<Rightarrow> 'f \<Rightarrow> 'f"
  op_update :: "point3 \<Rightarrow> real list \<Rightarrow> 'f \<Rightarrow> 'f"
  op_init :: "point3 \<Rightarrow> real list \<Rightarrow> int \<Rightarrow> 'f"
  op_label :: "'f \<Rightarrow> int"
  op_location :: "'f \<Rightarrow> point3"
  op_feature :: "'f \<Rightarrow> real list"

definition isTentative :: "'f Track \<Rightarrow> bool" where
  "isTentative t = (t_state t = Tentative)"

definition isConfirmed :: "'f Track \<Rightarrow> bool" where
  "isConfirmed t = (t_state t = Confirmed)"

definition isDeleted :: "'f Track \<Rightarrow> bool" where
  "isDeleted t = (t_state t = Deleted)"

definition setState :: "TrackState \<Rightarrow> 'f Track \<Rightarrow> 'f Track" where
  "setState s t = t\<lparr>t_state := s\<rparr>"

subsection \<open>\<open>Robot::setTrack\<close>\<close>

definition setTrack :: "'f Track_ops \<Rightarrow> 'f Track \<Rightarrow> Robot \<Rightarrow> Robot" where
  "setTrack ops track r =
     (let r1 = r\<lparr>r_track_state := Some (t_state track)\<rparr>
      in if isConfirmed track
         then r1\<lparr>r_label := Some (op_label ops (t_filter track)),
                 r_location := Some (op_location ops (t_filter track))\<rparr>
         else (let r2 = (if r_label r1 = None
                         then r1\<lparr>r_label := Some (op_label ops (t_filter track))\<rparr> else r1)
               in if r_location r2 = None
                  then r2\<lparr>r_location := Some (op_location ops (t_filter track))\<rparr> else r2))"

subsection \<open>The spec's words for the Robot's label score and feature norm\<close>

text \<open>
  The spec's "sum of armor confidences for that label", written directly; the code's
  \<open>score_map\<close> and feature vector are compared with it below.
\<close>

definition label_score :: "int \<Rightarrow> Detection list \<Rightarrow> real" where
  "label_score l armors = sum_list (map d_confidence (filter (\<lambda>armor. d_label armor = l) armors))"

text \<open>The L1 norm of a feature vector.\<close>

definition l1_norm :: "real list \<Rightarrow> real" where
  "l1_norm f = sum_list (map abs f)"

text \<open>\<open>m[k]\<close> read without inserting: the value-initialised 0 for a missing key.\<close>

definition map_value :: "(int \<times> real) list \<Rightarrow> int \<Rightarrow> real" where
  "map_value m k = (case map_of m k of None \<Rightarrow> 0 | Some v \<Rightarrow> v)"

section \<open>Tracker (tracker.cpp)\<close>

text \<open>
  The Tracker's configuration and state. \<open>max_acc_\<close>, \<open>tau_\<close> and
  \<open>measurement_noise_\<close> are only handed to the constructor of \<open>Track\<close>; they are part
  of \<open>op_init\<close>.
\<close>

record 'f Tracker =
  tk_class_num :: int
  tk_init_thresh :: int
  tk_miss_thresh :: int
  tk_distance_weight :: real
  tk_feature_weight :: real
  tk_max_iter :: int
  tk_distance_thresh :: real
  tk_latest_id :: int
  tk_tracks :: "'f Track list"

text \<open>\<open>optional::value()\<close> on the robot's location.\<close>

definition location_value :: "Robot \<Rightarrow> error + point3" where
  "location_value r = (case r_location r of None \<Rightarrow> Inl BadOptionalAccess | Some p \<Rightarrow> Inr p)"

definition calculateDistance :: "point3 \<Rightarrow> point3 \<Rightarrow> real" where
  "calculateDistance p1 p2 =
     (case p1 of (x1, y1, z1) \<Rightarrow> case p2 of (x2, y2, z2) \<Rightarrow>
        sqrt ((x1 - x2) * (x1 - x2) + (y1 - y2) * (y1 - y2) + (z1 - z2) * (z1 - z2)))"

subsection \<open>\<open>Tracker::calculateCost\<close>\<close>

text \<open>The conditional expression that \<open>calculateCost\<close> assigns to \<open>distance_score\<close>.\<close>

definition distance_score_of :: "real \<Rightarrow> real \<Rightarrow> real" where
  "distance_score_of distance_thresh distance =
     (if distance < distance_thresh then 1
      else if distance < 2 * distance_thresh
           then - 1 / (2 * distance_thresh) * distance + 1.5
           else 0.5 * exp (2 - distance / distance_thresh))"

definition distance_score :: "'f Track_ops \<Rightarrow> 'f Tracker \<Rightarrow> 'f Track \<Rightarrow> Robot \<Rightarrow> error + real" where
  "distance_score ops tk track robot =
     (if \<not> isLocated robot then Inr 0
      else case location_value robot of
          Inl e \<Rightarrow> Inl e
        | Inr loc \<Rightarrow>
            Inr (distance_score_of (tk_distance_thresh tk)
                   (calculateDistance loc (op_location ops (t_filter track)))))"

definition dot :: "real list \<Rightarrow> real list \<Rightarrow> real" where
  "dot a b = sum_list (map2 (*) a b)"

definition norm2 :: "real list \<Rightarrow> real" where
  "norm2 a = sqrt (dot a a)"

definition calculateCost :: "'f Track_ops \<Rightarrow> 'f Tracker \<Rightarrow> 'f Track \<Rightarrow> Robot \<Rightarrow> error + real" where
  "calculateCost ops tk track robot =
     (if \<not> isLocated robot \<and> \<not> isDetected robot then Inr 0
      else case distance_score ops tk track robot of
          Inl e \<Rightarrow> Inl e
        | Inr dscore \<Rightarrow>
            (case feature (tk_class_num tk) robot of
               Inl e \<Rightarrow> Inl e
             | Inr feature_robot \<Rightarrow>
                 (let feature_track = op_feature ops (t_filter track)
                  in if length feature_robot \<noteq> length feature_track then Inl AssertionFailed
                     else (let fscore = dot feature_robot feature_track /
                                          (norm2 feature_robot * norm2 feature_track);
                               fscore' = (fscore + 1) / 2
                           in Inr (dscore * tk_distance_weight tk +
                                   fscore' * tk_feature_weight tk)))))"

fun cost_row :: "'f Track_ops \<Rightarrow> 'f Tracker \<Rightarrow> 'f Track \<Rightarrow> Robot list \<Rightarrow> error + real list" where
  "cost_row ops tk track [] = Inr []"
| "cost_row ops tk track (robot # robots) =
     (case calculateCost ops tk track robot of
        Inl e \<Rightarrow> Inl e
      | Inr c \<Rightarrow>
          (case cost_row ops tk track robots of
             Inl e \<Rightarrow> Inl e
           | Inr cs \<Rightarrow> Inr (c # cs)))"

fun cost_matrix :: "'f Track_ops \<Rightarrow> 'f Tracker \<Rightarrow> 'f Track list \<Rightarrow> Robot list \<Rightarrow> error + real list list" where
  "cost_matrix ops tk [] robots = Inr []"
| "cost_matrix ops tk (track # trks) robots =
     (case cost_row ops tk track robots of
        Inl e \<Rightarrow> Inl e
      | Inr row \<Rightarrow>
          (case cost_matrix ops tk trks robots of
             Inl e \<Rightarrow> Inl e
           | Inr rows \<Rightarrow> Inr (row # rows)))"

subsection \<open>\<open>Tracker::update\<close>\<close>

text \<open>
  Modelled from the spec: \<open>kNotMatched\<close> and \<open>auction\<close> are declared in auction.h,
  which is not among the sources. The sentinel is a fixed integer that is no robot index;
  the assignment is a parameter of \<open>Tracker_update\<close>, which takes whatever vector it
  returns.
\<close>

definition kNotMatched :: int where
  "kNotMatched = - 1"

text \<open>
  Modelled from the spec: the constructor of \<open>Track\<close> makes "a new Tentative track
  with the next track_id, seeded from the robot's location and feature".
\<close>

definition new_Track :: "'f Track_ops \<Rightarrow> point3 \<Rightarrow> real list \<Rightarrow> int \<Rightarrow> int \<Rightarrow> 'f Track" where
  "new_Track ops location feat timestamp track_id =
     \<lparr>t_track_id = track_id, t_state = Tentative, t_init_count = 0, t_miss_count = 0,
      t_filter = op_init ops location feat timestamp\<rparr>"

text \<open>The branch \<open>robot_id == kNotMatched\<close> of the loop over the match result.\<close>

definition unmatched_track :: "'f Tracker \<Rightarrow> 'f Track \<Rightarrow> 'f Track" where
  "unmatched_track tk track =
     (if isTentative track then setState Deleted track
      else if isConfirmed track
      then (let track1 = track\<lparr>t_miss_count := t_miss_count track + 1\<rparr>
            in if t_miss_count track1 \<ge> tk_miss_thresh tk then setState Deleted track1 else track1)
      else track)"

text \<open>The other branch, up to the call of \<open>robot.setTrack\<close>: what becomes of the track.\<close>

definition matched_track :: "'f Track_ops \<Rightarrow> 'f Tracker \<Rightarrow> 'f Track \<Rightarrow> Robot \<Rightarrow> error + 'f Track" where
  "matched_track ops tk track robot =
     (if isLocated robot
      then (case location_value robot of
              Inl e \<Rightarrow> Inl e
            | Inr loc \<Rightarrow>
                (case feature (tk_class_num tk) robot of
                   Inl e \<Rightarrow> Inl e
                 | Inr feat \<Rightarrow>
                     (let track1 = track\<lparr>t_filter := op_update ops loc feat (t_filter track)\<rparr>
                      in if isTentative track1
                         then (let track2 = track1\<lparr>t_init_count := t_init_count track1 + 1\<rparr>;
                                   track3 = (if t_init_count track2 \<ge> tk_init_thresh tk
                                             then setState Confirmed track2 else track2)
                               in Inr (track3\<lparr>t_miss_count := 0\<rparr>))
                         else Inr track1)))
      else Inr track)"

text \<open>
  One iteration of the loop over \<open>match_result\<close>. The state is the track list, the
  robots and \<open>matched_robot_indices\<close>; \<open>tracks_[track_id]\<close> and \<open>robots[robot_id]\<close>
  outside their vectors are errors.
\<close>

definition match_track ::
  "'f Track_ops \<Rightarrow> 'f Tracker \<Rightarrow> nat \<Rightarrow> int \<Rightarrow> 'f Track list \<times> Robot list \<times> int list
     \<Rightarrow> error + 'f Track list \<times> Robot list \<times> int list" where
  "match_track ops tk track_id robot_id st =
     (case st of (trks, robots, matched) \<Rightarrow>
        if \<not> track_id < length trks then Inl IndexOutOfRange
        else (let track = trks ! track_id
              in if robot_id = kNotMatched
                 then Inr (trks[track_id := unmatched_track tk track], robots, matched)
                 else if \<not> (0 \<le> robot_id \<and> robot_id < int (length robots))
                 then Inl IndexOutOfRange
                 else (let robot = robots ! nat robot_id
                       in case matched_track ops tk track robot of
                            Inl e \<Rightarrow> Inl e
                          | Inr track' \<Rightarrow>
                              Inr (trks[track_id := track'],
                                   robots[nat robot_id := setTrack ops track' robot],
                                   matched @ [robot_id]))))"

fun match_loop ::
  "'f Track_ops \<Rightarrow> 'f Tracker \<Rightarrow> nat \<Rightarrow> int list \<Rightarrow> 'f Track list \<times> Robot list \<times> int list
     \<Rightarrow> error + 'f Track list \<times> Robot list \<times> int list" where
  "match_loop ops tk track_id [] st = Inr st"
| "match_loop ops tk track_id (robot_id # match_result) st =
     (case match_track ops tk track_id robot_id st of
        Inl e \<Rightarrow> Inl e
      | Inr st' \<Rightarrow> match_loop ops tk (Suc track_id) match_result st')"

text \<open>\<open>unmatched_robot_indices.erase(begin() + index)\<close>\<close>

definition erase_at :: "int \<Rightarrow> 'a list \<Rightarrow> error + 'a list" where
  "erase_at index xs =
     (if 0 \<le> index \<and> index < int (length xs)
      then Inr (take (nat index) xs @ drop (Suc (nat index)) xs)
      else Inl IndexOutOfRange)"

fun erase_loop :: "int list \<Rightarrow> 'a list \<Rightarrow> error + 'a list" where
  "erase_loop [] xs = Inr xs"
| "erase_loop (index # indices) xs =
     (case erase_at index xs of
        Inl e \<Rightarrow> Inl e
      | Inr xs' \<Rightarrow> erase_loop indices xs')"

text \<open>
  \<open>iota\<close> over the robots, \<open>std::sort\<close> of the matched indices through reverse
  iterators (descending order), then the erasures.
\<close>

definition unmatched_robot_indices :: "nat \<Rightarrow> int list \<Rightarrow> error + int list" where
  "unmatched_robot_indices n matched = erase_loop (rev (sort matched)) (map int [0..<n])"

text \<open>The loop that initialises tracks from the unmatched robots.\<close>

fun init_loop ::
  "'f Track_ops \<Rightarrow> 'f Tracker \<Rightarrow> int \<Rightarrow> int list \<Rightarrow> 'f Track list \<times> Robot list \<times> int
     \<Rightarrow> error + 'f Track list \<times> Robot list \<times> int" where
  "init_loop ops tk timestamp [] st = Inr st"
| "init_loop ops tk timestamp (index # indices) (trks, robots, latest_id) =
     (if \<not> (0 \<le> index \<and> index < int (length robots)) then Inl IndexOutOfRange
      else (let robot = robots ! nat index
            in if isDetected robot \<and> isLocated robot
               then (case location_value robot of
                       Inl e \<Rightarrow> Inl e
                     | Inr loc \<Rightarrow>
                         (case feature (tk_class_num tk) robot of
                            Inl e \<Rightarrow> Inl e
                          | Inr feat \<Rightarrow>
                              (let track = new_Track ops loc feat timestamp latest_id
                               in init_loop ops tk timestamp indices
                                    (trks @ [track],
                                     robots[nat index := setTrack ops track robot],
                                     latest_id + 1))))
               else init_loop ops tk timestamp indices (trks, robots, latest_id)))"

definition Tracker_update ::
  "'f Track_ops \<Rightarrow> (real list list \<Rightarrow> int \<Rightarrow> int list) \<Rightarrow> 'f Tracker \<Rightarrow> Robot list \<Rightarrow> int
     \<Rightarrow> error + 'f Tracker \<times> Robot list" where
  "Tracker_update ops auction tk robots timestamp =
     (let predicted = map (\<lambda>track. track\<lparr>t_filter := op_predict ops timestamp (t_filter track)\<rparr>)
                        (tk_tracks tk)
      in case cost_matrix ops tk predicted robots of
           Inl e \<Rightarrow> Inl e
         | Inr cost \<Rightarrow>
             (let match_result = auction cost (tk_max_iter tk)
              in case match_loop ops tk 0 match_result (predicted, robots, []) of
                   Inl e \<Rightarrow> Inl e
                 | Inr (trks1, robots1, matched) \<Rightarrow>
                     (case unmatched_robot_indices (length robots1) matched of
                        Inl e \<Rightarrow> Inl e
                      | Inr unmatched \<Rightarrow>
                          (case init_loop ops tk timestamp unmatched
                                  (trks1, robots1, tk_latest_id tk) of
                             Inl e \<Rightarrow> Inl e
                           | Inr (trks2, robots2, latest_id) \<Rightarrow>
                               Inr (tk\<lparr>tk_latest_id := latest_id,
                                       tk_tracks := filter (\<lambda>track. \<not> isDeleted track) trks2\<rparr>,
                                    robots2)))))"

section \<open>Locator (locate.cpp)\<close>

subsection \<open>Fixed-size matrices (\<open>cv::Matx\<close>) and images (\<open>cv::Mat\<close>)\<close>

type_synonym vec4 = "real \<times> real \<times> real \<times> real"
type_synonym mat33 = "point3 \<times> point3 \<times> point3"
type_synonym mat44 = "vec4 \<times> vec4 \<times> vec4 \<times> vec4"

fun dot3 :: "point3 \<Rightarrow> point3 \<Rightarrow> real" where
  "dot3 (a0, a1, a2) (b0, b1, b2) = a0 * b0 + a1 * b1 + a2 * b2"

fun dot4 :: "vec4 \<Rightarrow> vec4 \<Rightarrow> real" where
  "dot4 (a0, a1, a2, a3) (b0, b1, b2, b3) = a0 * b0 + a1 * b1 + a2 * b2 + a3 * b3"

fun mat33_vec :: "mat33 \<Rightarrow> point3 \<Rightarrow> point3" where
  "mat33_vec (r0, r1, r2) v = (dot3 r0 v, dot3 r1 v, dot3 r2 v)"

fun mat44_vec :: "mat44 \<Rightarrow> vec4 \<Rightarrow> vec4" where
  "mat44_vec (r0, r1, r2, r3) v = (dot4 r0 v, dot4 r1 v, dot4 r2 v, dot4 r3 v)"

fun mat44_transpose :: "mat44 \<Rightarrow> mat44" where
  "mat44_transpose ((a00, a01, a02, a03), (a10, a11, a12, a13),
                    (a20, a21, a22, a23), (a30, a31, a32, a33)) =
     ((a00, a10, a20, a30), (a01, a11, a21, a31), (a02, a12, a22, a32), (a03, a13, a23, a33))"

fun mat44_mul :: "mat44 \<Rightarrow> mat44 \<Rightarrow> mat44" where
  "mat44_mul (r0, r1, r2, r3) b =
     (mat44_vec (mat44_transpose b) r0, mat44_vec (mat44_transpose b) r1,
      mat44_vec (mat44_transpose b) r2, mat44_vec (mat44_transpose b) r3)"

fun vec3_scale :: "point3 \<Rightarrow> real \<Rightarrow> point3" where
  "vec3_scale (a0, a1, a2) s = (a0 * s, a1 * s, a2 * s)"

fun mat33_scale :: "mat33 \<Rightarrow> real \<Rightarrow> mat33" where
  "mat33_scale (r0, r1, r2) s = (vec3_scale r0 s, vec3_scale r1 s, vec3_scale r2 s)"

fun vec3_add :: "point3 \<Rightarrow> point3 \<Rightarrow> point3" where
  "vec3_add (a0, a1, a2) (b0, b1, b2) = (a0 + b0, a1 + b1, a2 + b2)"

fun minor3 :: "vec4 \<Rightarrow> point3" where
  "minor3 (a0, a1, a2, a3) = (a0, a1, a2)"

text \<open>
  A single-channel float image: its size and its pixels, addressed by (row, column).
  Only the pixels inside the size belong to the image.
\<close>

record image =
  im_rows :: int
  im_cols :: int
  im_pix :: "int \<times> int \<Rightarrow> real"

definition in_image :: "image \<Rightarrow> int \<Rightarrow> int \<Rightarrow> bool" where
  "in_image im row col = (0 \<le> row \<and> row < im_rows im \<and> 0 \<le> col \<and> col < im_cols im)"

definition setTo :: "real \<Rightarrow> image \<Rightarrow> image" where
  "setTo c im = im\<lparr>im_pix := (\<lambda>p. c)\<rparr>"

definition set_pix :: "int \<Rightarrow> int \<Rightarrow> real \<Rightarrow> image \<Rightarrow> image" where
  "set_pix row col c im = im\<lparr>im_pix := (im_pix im)((row, col) := c)\<rparr>"

text \<open>
  The conversion of a \<open>float\<close> to \<open>int\<close> that C++ applies when a float is passed for
  an \<open>int\<close> or initialises one: truncation towards zero.
\<close>

definition trunc :: "real \<Rightarrow> int" where
  "trunc v = (if 0 \<le> v then \<lfloor>v\<rfloor> else \<lceil>v\<rceil>)"

type_synonym recti = "int \<times> int \<times> int \<times> int"

text \<open>
  \<open>cv::Rect::operator&=\<close> (OpenCV): the intersection of two rectangles, the empty
  rectangle \<open>Rect()\<close> when they do not overlap.
\<close>

definition rect_and :: "recti \<Rightarrow> recti \<Rightarrow> recti" where
  "rect_and a b =
     (case a of (ax, ay, aw, ah) \<Rightarrow> case b of (bx, by, bw, bh) \<Rightarrow>
        (let x1 = max ax bx; y1 = max ay by;
             w = min (ax + aw) (bx + bw) - x1;
             h = min (ay + ah) (by + bh) - y1
         in if w \<le> 0 \<or> h \<le> 0 then (0, 0, 0, 0) else (x1, y1, w, h)))"

subsection \<open>The Locator's state\<close>

text \<open>
  The members of \<open>Locator\<close> that the functions below read or write. The matrices
  derived by the constructor with OpenCV's \<open>inv\<close> are fields as well. The pixel-to-index
  map is keyed by \<open>cv::Point2i(u, v)\<close>, column first.
\<close>

record Locator =
  lc_zoom_factor :: real
  lc_image_width_zoomed :: int
  lc_image_height_zoomed :: int
  lc_queue_size :: nat
  lc_intrinsic :: mat33
  lc_intrinsic_inv :: mat33
  lc_lidar_to_camera_transform :: mat44
  lc_camera_to_lidar_rotate :: mat33
  lc_camera_to_lidar_translate :: point3
  lc_camera_to_world_transform :: mat44
  lc_min_depth_diff :: real
  lc_max_depth_diff :: real
  lc_max_distance :: real
  lc_depth_image :: image
  lc_background_depth_image :: image
  lc_diff_depth_image :: image
  lc_depth_images :: "image list"
  lc_cloud_foreground :: "point3 list"
  lc_point_index_map :: "int \<times> int \<rightharpoonup> nat"
  lc_index_cluster_map :: "int \<rightharpoonup> nat"
  lc_clusters :: "int list list"

text \<open>
  What the constructor establishes with \<open>create(image_height_zoomed_,
  image_width_zoomed_, CV_32F)\<close> and no function changes: the three images have the
  zoomed size.
\<close>

definition has_zoomed_size :: "Locator \<Rightarrow> image \<Rightarrow> bool" where
  "has_zoomed_size lc im =
     (im_rows im = lc_image_height_zoomed lc \<and> im_cols im = lc_image_width_zoomed lc)"

definition Locator_sized :: "Locator \<Rightarrow> bool" where
  "Locator_sized lc =
     (has_zoomed_size lc (lc_depth_image lc) \<and>
      has_zoomed_size lc (lc_background_depth_image lc) \<and>
      has_zoomed_size lc (lc_diff_depth_image lc))"

subsection \<open>Coordinate transforms\<close>

definition lidarToWorld :: "Locator \<Rightarrow> point3 \<Rightarrow> point3" where
  "lidarToWorld lc point =
     (case point of (x, y, z) \<Rightarrow>
        minor3 (mat44_vec (mat44_mul (lc_camera_to_world_transform lc)
                                     (lc_lidar_to_camera_transform lc))
                          (x, y, z, 1)))"

definition cameraToLidar :: "Locator \<Rightarrow> point3 \<Rightarrow> point3" where
  "cameraToLidar lc point =
     (case point of (x, y, z) \<Rightarrow>
        (let camera_coor = (x / lc_zoom_factor lc, y / lc_zoom_factor lc, 1)
         in mat33_vec (lc_camera_to_lidar_rotate lc)
              (vec3_add (mat33_vec (mat33_scale (lc_intrinsic_inv lc) z) camera_coor)
                        (lc_camera_to_lidar_translate lc))))"

definition lidarToCamera :: "Locator \<Rightarrow> point3 \<Rightarrow> point3" where
  "lidarToCamera lc point =
     (case point of (x, y, z) \<Rightarrow>
        (case mat33_vec (lc_intrinsic lc)
                (minor3 (mat44_vec (lc_lidar_to_camera_transform lc) (x, y, z, 1))) of
           (c0, c1, c2) \<Rightarrow>
             (c0 * lc_zoom_factor lc / c2, c1 * lc_zoom_factor lc / c2, c2)))"

subsection \<open>\<open>Locator::update\<close>\<close>

text \<open>
  The body of the loop over the cloud, for one point. \<open>cv::Mat::at<float>(v, u)\<close>
  takes \<open>int\<close> indices, so the floats \<open>v\<close> and \<open>u\<close> are truncated; an index pair
  outside the image is the error \<open>IndexOutOfRange\<close>. \<open>update_points\<close> takes the
  points in their order in the cloud, each body run to its end before the next starts:
  one of the runs of the loop (see \<open>run_schedule\<close> below for all of them).
\<close>

definition update_point :: "point3 \<Rightarrow> Locator \<Rightarrow> error + Locator" where
  "update_point point lc =
     (case point of (x, y, z) \<Rightarrow>
        if iszero_float x \<and> iszero_float y \<and> iszero_float z then Inr lc
        else if x > lc_max_distance lc then Inr lc
        else (case lidarToCamera lc (x, y, z) of (u, v, d) \<Rightarrow>
                if u < 0 \<or> u > real_of_int (lc_image_width_zoomed lc) \<or>
                   v < 0 \<or> v > real_of_int (lc_image_height_zoomed lc)
                then Inr lc
                else if \<not> in_image (lc_background_depth_image lc) (trunc v) (trunc u) \<or>
                        \<not> in_image (lc_depth_image lc) (trunc v) (trunc u)
                then Inl IndexOutOfRange
                else (let background_depth =
                            im_pix (lc_background_depth_image lc) (trunc v, trunc u);
                          lc1 = (if d > background_depth
                                 then lc\<lparr>lc_background_depth_image :=
                                          set_pix (trunc v) (trunc u) d
                                            (lc_background_depth_image lc)\<rparr>
                                 else lc)
                      in Inr (lc1\<lparr>lc_depth_image :=
                                    set_pix (trunc v) (trunc u) d (lc_depth_image lc1)\<rparr>))))"

fun update_points :: "point3 list \<Rightarrow> Locator \<Rightarrow> error + Locator" where
  "update_points [] lc = Inr lc"
| "update_points (point # points) lc =
     (case update_point point lc of
        Inl e \<Rightarrow> Inl e
      | Inr lc' \<Rightarrow> update_points points lc')"

text \<open>The loop over the pixels of one queued depth image that rebuilds the difference image.\<close>

definition diff_pixel :: "Locator \<Rightarrow> image \<Rightarrow> int \<Rightarrow> int \<Rightarrow> image \<Rightarrow> image" where
  "diff_pixel lc im i j diff_image =
     (let v = im_pix im (i, j)
      in if iszero_float v then diff_image
         else (let diff = im_pix (lc_background_depth_image lc) (i, j) - v
               in if diff \<ge> lc_min_depth_diff lc \<and> diff \<le> lc_max_depth_diff lc
                  then set_pix i j v diff_image
                  else diff_image))"

definition diff_of_image :: "Locator \<Rightarrow> image \<Rightarrow> image \<Rightarrow> image" where
  "diff_of_image lc im diff_image =
     fold (\<lambda>i acc. fold (\<lambda>j acc'. diff_pixel lc im i j acc') [0..im_cols im - 1] acc)
       [0..im_rows im - 1] diff_image"

text \<open>\<open>cloud\<close> is \<open>None\<close> for a null pointer.\<close>

definition Locator_update :: "point3 list option \<Rightarrow> Locator \<Rightarrow> error + Locator" where
  "Locator_update cloud lc =
     (let lc1 = lc\<lparr>lc_depth_image := setTo 0 (lc_depth_image lc),
                    lc_diff_depth_image := setTo 0 (lc_diff_depth_image lc)\<rparr>
      in case cloud of
           None \<Rightarrow> Inr lc1
         | Some points \<Rightarrow>
             if points = [] then Inr lc1
             else (case update_points points lc1 of
                     Inl e \<Rightarrow> Inl e
                   | Inr lc2 \<Rightarrow>
                       (let pushed = lc_depth_images lc2 @ [lc_depth_image lc2];
                            queue = (if length pushed > lc_queue_size lc2 then tl pushed
                                     else pushed);
                            lc3 = lc2\<lparr>lc_depth_images := queue\<rparr>
                        in Inr (lc3\<lparr>lc_diff_depth_image :=
                                      fold (diff_of_image lc3) queue
                                        (lc_diff_depth_image lc3)\<rparr>))))"

subsection \<open>The loop over the cloud under \<open>std::execution::par_unseq\<close>\<close>

text \<open>
  \<open>update_points\<close> runs the loop body point after point. The source runs it under
  \<open>std::execution::par_unseq\<close> and without synchronisation, so the reads and writes of
  different points interleave. An invocation of the body is a \<open>point_task\<close>: not started
  (\<open>Todo\<close>); past the comparison \<open>d > background_depth\<close>, which held, and about to
  execute \<open>background_depth = d\<close> (\<open>WriteBackground\<close>); about to execute
  \<open>depth_image_.at<float>(v, u) = d\<close> (\<open>WriteDepth\<close>); or \<open>Finished\<close>.
  \<open>task_step\<close> is one such step, with the same tests as \<open>update_point\<close>.
\<close>

datatype point_task =
  Todo point3
| WriteBackground int int real
| WriteDepth int int real
| Finished

fun task_step :: "point_task \<Rightarrow> Locator \<Rightarrow> error + point_task \<times> Locator" where
  "task_step (Todo (x, y, z)) lc =
     (if iszero_float x \<and> iszero_float y \<and> iszero_float z then Inr (Finished, lc)
      else if x > lc_max_distance lc then Inr (Finished, lc)
      else (case lidarToCamera lc (x, y, z) of (u, v, d) \<Rightarrow>
              if u < 0 \<or> u > real_of_int (lc_image_width_zoomed lc) \<or>
                 v < 0 \<or> v > real_of_int (lc_image_height_zoomed lc)
              then Inr (Finished, lc)
              else if in_image (lc_background_depth_image lc) (trunc v) (trunc u) \<and>
                      in_image (lc_depth_image lc) (trunc v) (trunc u)
              then (if d > im_pix (lc_background_depth_image lc) (trunc v, trunc u)
                    then Inr (WriteBackground (trunc v) (trunc u) d, lc)
                    else Inr (WriteDepth (trunc v) (trunc u) d, lc))
              else Inl IndexOutOfRange))"
| "task_step (WriteBackground row col d) lc =
     Inr (WriteDepth row col d,
          lc\<lparr>lc_background_depth_image := set_pix row col d (lc_background_depth_image lc)\<rparr>)"
| "task_step (WriteDepth row col d) lc =
     Inr (Finished, lc\<lparr>lc_depth_image := set_pix row col d (lc_depth_image lc)\<rparr>)"
| "task_step Finished lc = Inr (Finished, lc)"

text \<open>
  A run of the loop is given by its schedule: the list of the indices of the tasks that
  take the next step. An index that names no task takes no step.
\<close>

fun run_schedule ::
  "nat list \<Rightarrow> point_task list \<Rightarrow> Locator \<Rightarrow> error + point_task list \<times> Locator" where
  "run_schedule [] tasks lc = Inr (tasks, lc)"
| "run_schedule (i # schedule) tasks lc =
     (if i < length tasks
      then (case task_step (tasks ! i) lc of
              Inl e \<Rightarrow> Inl e
            | Inr (task', lc') \<Rightarrow> run_schedule schedule (tasks[i := task']) lc')
      else run_schedule schedule tasks lc)"

text \<open>The schedule that runs the tasks \<open>k, k + 1, ...\<close> one after the other.\<close>

fun cloud_order :: "nat \<Rightarrow> nat \<Rightarrow> nat list" where
  "cloud_order k 0 = []"
| "cloud_order k (Suc n) = k # k # k # cloud_order (Suc k) n"

text \<open>
  \<open>Locator::update\<close> with the loop over the cloud run by a schedule. The result is
  \<open>None\<close> when the schedule leaves a task unfinished: the loop has not ended then.
\<close>

definition Locator_update_scheduled ::
  "nat list \<Rightarrow> point3 list option \<Rightarrow> Locator \<Rightarrow> (error + Locator) option" where
  "Locator_update_scheduled schedule cloud lc =
     (let lc1 = lc\<lparr>lc_depth_image := setTo 0 (lc_depth_image lc),
                    lc_diff_depth_image := setTo 0 (lc_diff_depth_image lc)\<rparr>
      in case cloud of
           None \<Rightarrow> Some (Inr lc1)
         | Some points \<Rightarrow>
             if points = [] then Some (Inr lc1)
             else (case run_schedule schedule (map Todo points) lc1 of
                     Inl e \<Rightarrow> Some (Inl e)
                   | Inr (tasks, lc2) \<Rightarrow>
                       if list_all (\<lambda>task. task = Finished) tasks
                       then (let pushed = lc_depth_images lc2 @ [lc_depth_image lc2];
                                 queue = (if length pushed > lc_queue_size lc2 then tl pushed
                                          else pushed);
                                 lc3 = lc2\<lparr>lc_depth_images := queue\<rparr>
                             in Some (Inr (lc3\<lparr>lc_diff_depth_image :=
                                                fold (diff_of_image lc3) queue
                                                  (lc_diff_depth_image lc3)\<rparr>)))
                       else None))"

text \<open>
  Every task that is about to write the background holds a depth greater than \<open>base\<close>
  at its pixel: the invariant of the runs, with \<open>base\<close> the background when the loop
  started.
\<close>

definition pending_above :: "(int \<times> int \<Rightarrow> real) \<Rightarrow> point_task list \<Rightarrow> bool" where
  "pending_above base tasks =
     (\<forall>task\<in>set tasks. \<forall>row col d. task = WriteBackground row col d \<longrightarrow> base (row, col) < d)"

subsection \<open>\<open>Locator::cluster\<close>\<close>

text \<open>\<open>emplace\<close> on a map: nothing happens when the key is present.\<close>

definition emplace :: "'k \<Rightarrow> 'v \<Rightarrow> ('k \<rightharpoonup> 'v) \<Rightarrow> ('k \<rightharpoonup> 'v)" where
  "emplace k v m = (if m k = None then m(k \<mapsto> v) else m)"

definition cluster_pixel ::
  "Locator \<Rightarrow> int \<Rightarrow> int \<Rightarrow> point3 list \<times> (int \<times> int \<rightharpoonup> nat)
     \<Rightarrow> point3 list \<times> (int \<times> int \<rightharpoonup> nat)" where
  "cluster_pixel lc i j st =
     (case st of (cloud, pmap) \<Rightarrow>
        (let v = im_pix (lc_diff_depth_image lc) (i, j)
         in if iszero_float v then (cloud, pmap)
            else (let lidar_point = cameraToLidar lc (real_of_int j, real_of_int i, v);
                      cloud' = cloud @ [lidar_point]
                  in (cloud', emplace (j, i) (length cloud' - 1) pmap))))"

definition cluster_scan :: "Locator \<Rightarrow> point3 list \<times> (int \<times> int \<rightharpoonup> nat)" where
  "cluster_scan lc =
     fold (\<lambda>i st. fold (\<lambda>j st'. cluster_pixel lc i j st')
                     [0..im_cols (lc_diff_depth_image lc) - 1] st)
       [0..im_rows (lc_diff_depth_image lc) - 1] ([], Map.empty)"

text \<open>The loop over \<open>clusters_\<close> that fills \<open>index_cluster_map_\<close>.\<close>

fun index_clusters :: "nat \<Rightarrow> int list list \<Rightarrow> (int \<rightharpoonup> nat) \<Rightarrow> (int \<rightharpoonup> nat)" where
  "index_clusters i [] m = m"
| "index_clusters i (indices # clusters) m =
     index_clusters (Suc i) clusters (fold (\<lambda>index acc. emplace index i acc) indices m)"

text \<open>
  \<open>extraction\<close> stands for PCL's Euclidean cluster extraction over the foreground cloud,
  with the k-d tree and the tolerances set by the constructor.
\<close>

definition Locator_cluster :: "(point3 list \<Rightarrow> int list list) \<Rightarrow> Locator \<Rightarrow> Locator" where
  "Locator_cluster extraction lc =
     (case cluster_scan lc of (cloud, pmap) \<Rightarrow>
        (let lc1 = lc\<lparr>lc_point_index_map := pmap, lc_index_cluster_map := Map.empty,
                       lc_clusters := [], lc_cloud_foreground := cloud\<rparr>
         in if cloud = [] then lc1
            else (let clusters = extraction cloud
                  in lc1\<lparr>lc_clusters := clusters,
                         lc_index_cluster_map := index_clusters 0 clusters Map.empty\<rparr>)))"

subsection \<open>\<open>Locator::zoom\<close> and \<open>Locator::search\<close>\<close>

definition zoom :: "Locator \<Rightarrow> recti \<Rightarrow> recti" where
  "zoom lc rect =
     (case rect of (x, y, width, height) \<Rightarrow>
        (let image_rect = (0, 0, lc_image_width_zoomed lc, lc_image_height_zoomed lc);
             center_x = real_of_int x * lc_zoom_factor lc +
                        real_of_int width * lc_zoom_factor lc * 0.5;
             center_y = real_of_int y * lc_zoom_factor lc +
                        real_of_int height * lc_zoom_factor lc * 0.5;
             ret_width = trunc (real_of_int width * lc_zoom_factor lc);
             ret_height = trunc (real_of_int height * lc_zoom_factor lc);
             ret_x = trunc (center_x - real_of_int ret_width * 0.5);
             ret_y = trunc (center_y - real_of_int ret_height * 0.5)
         in rect_and (ret_x, ret_y, ret_width, ret_height) image_rect))"

text \<open>
  The body of the two loops of \<open>search\<close> for the pixel in row \<open>v\<close>, column \<open>u\<close>.
  \<open>candidates\<close> is a \<open>std::map\<close> from cluster id to points; reading the row pointer
  outside the image is \<open>IndexOutOfRange\<close>, \<open>point_index_map_.at\<close> on a missing key is
  \<open>KeyNotFound\<close>.
\<close>

definition search_pixel ::
  "Locator \<Rightarrow> int \<Rightarrow> int \<Rightarrow> (int \<times> point3 list) list \<Rightarrow> error + (int \<times> point3 list) list" where
  "search_pixel lc v u candidates =
     (if \<not> in_image (lc_diff_depth_image lc) v u then Inl IndexOutOfRange
      else (let depth = im_pix (lc_diff_depth_image lc) (v, u)
            in if iszero_float depth then Inr candidates
               else (case lc_point_index_map lc (u, v) of
                       None \<Rightarrow> Inl KeyNotFound
                     | Some index \<Rightarrow>
                         (let cluster_id = (case lc_index_cluster_map lc (int index) of
                                              Some c \<Rightarrow> int c
                                            | None \<Rightarrow> - 1)
                          in Inr (map_modify cluster_id
                                    (\<lambda>points. points @
                                       [cameraToLidar lc (real_of_int u, real_of_int v, depth)])
                                    [] candidates)))))"

fun search_cols ::
  "Locator \<Rightarrow> int \<Rightarrow> int list \<Rightarrow> (int \<times> point3 list) list \<Rightarrow> error + (int \<times> point3 list) list" where
  "search_cols lc v [] candidates = Inr candidates"
| "search_cols lc v (u # us) candidates =
     (case search_pixel lc v u candidates of
        Inl e \<Rightarrow> Inl e
      | Inr candidates' \<Rightarrow> search_cols lc v us candidates')"

fun search_rows ::
  "Locator \<Rightarrow> int list \<Rightarrow> int list \<Rightarrow> (int \<times> point3 list) list
     \<Rightarrow> error + (int \<times> point3 list) list" where
  "search_rows lc [] us candidates = Inr candidates"
| "search_rows lc (v # vs) us candidates =
     (case search_cols lc v us candidates of
        Inl e \<Rightarrow> Inl e
      | Inr candidates' \<Rightarrow> search_rows lc vs us candidates')"

text \<open>\<open>std::accumulate\<close> of the points from \<open>(0, 0, 0)\<close>, divided by their number.\<close>

definition centroid :: "point3 list \<Rightarrow> point3" where
  "centroid points =
     (case fold (\<lambda>p acc. vec3_add acc p) points (0, 0, 0) of
        (sx, sy, sz) \<Rightarrow>
          (sx / real (length points), sy / real (length points), sz / real (length points)))"

text \<open>
  \<open>rect_cast\<close> stands for OpenCV's conversion of the robot's \<open>cv::Rect2f\<close> to the
  \<open>cv::Rect\<close> that \<open>zoom\<close> takes.
\<close>

definition Locator_search :: "(rect2f \<Rightarrow> recti) \<Rightarrow> Locator \<Rightarrow> Robot \<Rightarrow> error + Robot" where
  "Locator_search rect_cast lc robot =
     (case r_rect robot of
        None \<Rightarrow> Inr robot
      | Some robot_rect \<Rightarrow>
          (case zoom lc (rect_cast robot_rect) of (x, y, width, height) \<Rightarrow>
             (case search_rows lc [y..y + height - 1] [x..x + width - 1] [] of
                Inl e \<Rightarrow> Inl e
              | Inr candidates \<Rightarrow>
                  if candidates = [] then Inr robot
                  else (case max_element
                               (\<lambda>pair_a pair_b. length (snd pair_a) < length (snd pair_b))
                               candidates of
                          None \<Rightarrow> Inr robot
                        | Some (cluster_id, points) \<Rightarrow>
                            Inr (setLocation (lidarToWorld lc (centroid points)) robot)))))"

subsection \<open>A concrete Locator\<close>

text \<open>
  A Locator for a zoomed image of 2 by 2 pixels with the identity as intrinsic matrix and
  as both transforms, zoom factor 1 and an empty history: the configuration of the
  concrete runs below.
\<close>

definition identity33 :: mat33 where
  "identity33 = ((1, 0, 0), (0, 1, 0), (0, 0, 1))"

definition identity44 :: mat44 where
  "identity44 = ((1, 0, 0, 0), (0, 1, 0, 0), (0, 0, 1, 0), (0, 0, 0, 1))"

definition blank_image :: image where
  "blank_image = \<lparr>im_rows = 2, im_cols = 2, im_pix = (\<lambda>p. 0)\<rparr>"

definition unit_Locator :: Locator where
  "unit_Locator =
     \<lparr>lc_zoom_factor = 1, lc_image_width_zoomed = 2, lc_image_height_zoomed = 2,
      lc_queue_size = 3, lc_intrinsic = identity33, lc_intrinsic_inv = identity33,
      lc_lidar_to_camera_transform = identity44, lc_camera_to_lidar_rotate = identity33,
      lc_camera_to_lidar_translate = (0, 0, 0), lc_camera_to_world_transform = identity44,
      lc_min_depth_diff = 1, lc_max_depth_diff = 10, lc_max_distance = 100,
      lc_depth_image = blank_image, lc_background_depth_image = blank_image,
      lc_diff_depth_image = blank_image, lc_depth_images = [], lc_cloud_foreground = [],
      lc_point_index_map = Map.empty, lc_index_cluster_map = Map.empty, lc_clusters = []\<rparr>"

section \<open>Properties\<close>

subsection \<open>Robot\<close>

text \<open>
  Claim C3. \<open>Robot::setTrack\<close> copies the track's state into the robot. For a Confirmed
  track it overwrites the robot's label and location with the track's, whatever the robot
  held. For a Tentative track it assigns the track's label and location only to the fields
  the robot does not have yet, and leaves the fields that are present unchanged.
\<close>

theorem setTrack_contract:
  "r_track_state (setTrack ops track r) = Some (t_state track) \<and>
   (t_state track = Confirmed \<longrightarrow>
      r_label (setTrack ops track r) = Some (op_label ops (t_filter track)) \<and>
      r_location (setTrack ops track r) = Some (op_location ops (t_filter track))) \<and>
   (t_state track = Tentative \<longrightarrow>
      r_label (setTrack ops track r) =
        (case r_label r of None \<Rightarrow> Some (op_label ops (t_filter track)) | Some l \<Rightarrow> Some l) \<and>
      r_location (setTrack ops track r) =
        (case r_location r of None \<Rightarrow> Some (op_location ops (t_filter track)) | Some p \<Rightarrow> Some p))"
  by (auto simp: setTrack_def isConfirmed_def Let_def split: option.splits)

text \<open>
  The spec's scenario "label stability via track": a robot whose armors voted for label 5
  reads label 3 after \<open>setTrack\<close> of a Confirmed track with label 3; a Tentative track
  keeps the robot's label 5 and fills the missing location.
\<close>

theorem setTrack_contract_witness:
  "(let ops = \<lparr>op_predict = (\<lambda>ts f. f), op_update = (\<lambda>p feat (l, q). (l, p)),
               op_init = (\<lambda>p feat ts. (0, p)), op_label = fst, op_location = snd,
               op_feature = (\<lambda>f. [])\<rparr>;
        r = \<lparr>r_rect = Some (0, 0, 10, 10), r_label = Some 5, r_confidence = Some 1,
              r_armors = Some [], r_location = None, r_track_state = None\<rparr>;
        confirmed = \<lparr>t_track_id = 0, t_state = Confirmed, t_init_count = 3, t_miss_count = 0,
              t_filter = (3::int, (1, 2, 0) :: point3)\<rparr>;
        tentative = confirmed\<lparr>t_state := Tentative\<rparr>
    in r_track_state (setTrack ops confirmed r) = Some Confirmed \<and>
       r_label (setTrack ops confirmed r) = Some 3 \<and>
       r_location (setTrack ops confirmed r) = Some (1, 2, 0) \<and>
       r_track_state (setTrack ops tentative r) = Some Tentative \<and>
       r_label (setTrack ops tentative r) = Some 5 \<and>
       r_location (setTrack ops tentative r) = Some (1, 2, 0))"
  using setTrack_contract
    [of "\<lparr>op_predict = (\<lambda>ts f. f), op_update = (\<lambda>p feat (l, q). (l, p)),
               op_init = (\<lambda>p feat ts. (0, p)), op_label = fst, op_location = snd,
               op_feature = (\<lambda>f. [])\<rparr>"
        "\<lparr>t_track_id = 0, t_state = Confirmed, t_init_count = 3, t_miss_count = 0,
              t_filter = (3::int, (1, 2, 0) :: point3)\<rparr>"
        "\<lparr>r_rect = Some (0, 0, 10, 10), r_label = Some 5, r_confidence = Some 1,
              r_armors = Some [], r_location = None, r_track_state = None\<rparr>"]
    setTrack_contract
    [of "\<lparr>op_predict = (\<lambda>ts f. f), op_update = (\<lambda>p feat (l, q). (l, p)),
               op_init = (\<lambda>p feat ts. (0, p)), op_label = fst, op_location = snd,
               op_feature = (\<lambda>f. [])\<rparr>"
        "\<lparr>t_track_id = 0, t_state = Tentative, t_init_count = 3, t_miss_count = 0,
              t_filter = (3::int, (1, 2, 0) :: point3)\<rparr>"
        "\<lparr>r_rect = Some (0, 0, 10, 10), r_label = Some 5, r_confidence = Some 1,
              r_armors = Some [], r_location = None, r_track_state = None\<rparr>"]
  by (simp add: Let_def)
lemma map_modify_keys: "fst ` set (map_modify k f d m) = insert k (fst ` set m)"
  by (induction m) (force split: if_splits)+

lemma map_modify_sorted:
  "sorted_wrt (<) (map fst m) \<Longrightarrow> sorted_wrt (<) (map fst (map_modify k f d m))"
proof (induction m)
  case Nil
  then show ?case by simp
next
  case (Cons p m)
  obtain k' v where p: "p = (k', v)" by (cases p)
  have keys: "fst ` set (map_modify k f d m) = insert k (fst ` set m)"
    by (rule map_modify_keys)
  show ?case using Cons p keys by (auto simp: image_iff) 
qed

lemma map_modify_map_of:
  "sorted_wrt (<) (map fst m) \<Longrightarrow>
   map_of (map_modify k f d m) = (map_of m)(k \<mapsto> f (case map_of m k of None \<Rightarrow> d | Some v \<Rightarrow> v))"
proof (induction m)
  case Nil
  then show ?case by simp
next
  case (Cons p m)
  obtain k' v where p: "p = (k', v)" by (cases p)
  have notin: "k < k' \<Longrightarrow> map_of m k = None"
    using Cons.prems p by (force simp: map_of_eq_None_iff)
  show ?case using Cons p notin by (auto simp: fun_eq_iff)
qed

lemma score_map_fold:
  "sorted_wrt (<) (map fst m) \<Longrightarrow>
   (let m' = fold (\<lambda>armor m. map_modify (d_label armor) (\<lambda>s. s + d_confidence armor) 0 m) armors m
    in sorted_wrt (<) (map fst m') \<and>
       fst ` set m' = fst ` set m \<union> d_label ` set armors \<and>
       (\<forall>l. map_value m' l = map_value m l + label_score l armors))"
proof (induction armors arbitrary: m)
  case Nil
  then show ?case by (simp add: label_score_def)
next
  case (Cons a armors)
  let ?m1 = "map_modify (d_label a) (\<lambda>s. s + d_confidence a) 0 m"
  have s1: "sorted_wrt (<) (map fst ?m1)" using Cons.prems by (rule map_modify_sorted)
  have k1: "fst ` set ?m1 = insert (d_label a) (fst ` set m)" by (rule map_modify_keys)
  have v1: "map_value ?m1 l = map_value m l + (if l = d_label a then d_confidence a else 0)" for l
    using map_modify_map_of[OF Cons.prems, of "d_label a" "\<lambda>s. s + d_confidence a" 0]
    by (simp add: map_value_def split: option.splits)
  show ?case using Cons.IH[OF s1] k1 v1
    by (auto simp: Let_def label_score_def)
qed

lemma score_map_of_props:
  "sorted_wrt (<) (map fst (score_map_of armors)) \<and>
   fst ` set (score_map_of armors) = d_label ` set armors \<and>
   (\<forall>l. map_value (score_map_of armors) l = label_score l armors)"
  using score_map_fold[of "[]" armors] by (simp add: score_map_of_def Let_def map_value_def)

lemma score_map_of_entry:
  assumes "(l, c) \<in> set (score_map_of armors)"
  shows "l \<in> d_label ` set armors \<and> c = label_score l armors"
proof -
  have d: "distinct (map fst (score_map_of armors))"
    using score_map_of_props[of armors] strict_sorted_iff
    by (metis sorted_wrt_iff_nth_less distinct_conv_nth order_less_irrefl length_map linorder_neqE_nat)
  have "map_of (score_map_of armors) l = Some c" using d assms by simp
  then have "map_value (score_map_of armors) l = c" by (simp add: map_value_def)
  then show ?thesis using score_map_of_props[of armors] assms by (force simp: image_iff)
qed

lemma max_fold_props:
  "(let r = fold (\<lambda>b largest. if snd largest < snd b then b else largest) xs (a :: int \<times> real)
    in r \<in> insert a (set xs) \<and> snd a \<le> snd r \<and> (\<forall>y\<in>set xs. snd y \<le> snd r))"
proof (induction xs arbitrary: a)
  case Nil
  then show ?case by simp
next
  case (Cons x xs)
  show ?case using Cons[of x] Cons[of a] by (auto simp: Let_def)
qed

lemma max_element_props:
  "xs \<noteq> [] \<Longrightarrow> \<exists>p\<in>set xs. max_element (\<lambda>pair_a pair_b. snd pair_a < snd pair_b) xs = Some p \<and>
     (\<forall>y\<in>set xs. snd y \<le> snd (p :: int \<times> real))"
  using max_fold_props[of "tl xs" "hd xs"] by (cases xs) (auto simp: Let_def)

text \<open>
  Claim C5. The Robot assembled from a car detection and its armor detections has its
  rect set to the car's rectangle. If the armor list is empty, label, confidence and armors
  stay unset. Otherwise the label is one of the armors' labels whose summed confidence is
  largest among the armors' labels, the confidence is that sum divided by the number of
  armors with the winning label, and the stored armors are the input armors with x and y
  shifted by the car's top-left corner.
\<close>

theorem setDetection_assembles:
  "r_rect (new_Robot car armors) = Some (d_x car, d_y car, d_width car, d_height car) \<and>
   (armors = [] \<longrightarrow>
      r_label (new_Robot car armors) = None \<and>
      r_confidence (new_Robot car armors) = None \<and>
      r_armors (new_Robot car armors) = None) \<and>
   (armors \<noteq> [] \<longrightarrow>
      (\<exists>l. r_label (new_Robot car armors) = Some l \<and>
           l \<in> d_label ` set armors \<and>
           (\<forall>l'\<in>d_label ` set armors. label_score l' armors \<le> label_score l armors) \<and>
           r_confidence (new_Robot car armors) =
             Some (label_score l armors / real (length (filter (\<lambda>armor. d_label armor = l) armors))) \<and>
           r_armors (new_Robot car armors) =
             Some (map (\<lambda>armor. armor\<lparr>d_x := d_x armor + d_x car, d_y := d_y armor + d_y car\<rparr>) armors)))"
proof (cases "armors = []")
  case True
  then show ?thesis
    by (simp add: new_Robot_def setDetection_def empty_Robot_def)
next
  case False
  let ?m = "score_map_of armors"
  have keys: "fst ` set ?m = d_label ` set armors"
    using score_map_of_props[of armors] by simp
  have ne: "?m \<noteq> []" using keys False by auto
  obtain p where p: "p \<in> set ?m"
      "max_element (\<lambda>pair_a pair_b. snd pair_a < snd pair_b) ?m = Some p"
      "\<forall>y\<in>set ?m. snd y \<le> snd p"
    using max_element_props[OF ne] by blast
  obtain l c where lc: "p = (l, c)" by (cases p)
  have win: "l \<in> d_label ` set armors" "c = label_score l armors"
    using score_map_of_entry[of l c armors] p(1) lc by auto
  have best: "label_score l' armors \<le> label_score l armors" if "l' \<in> d_label ` set armors" for l'
  proof -
    from that keys obtain c' where c': "(l', c') \<in> set ?m" by (force simp: image_iff)
    then have "c' = label_score l' armors" using score_map_of_entry by blast
    moreover have "c' \<le> c" using p(3) c' lc by force
    ultimately show ?thesis using win(2) by simp
  qed
  have shift: "map (shift_armor car) armors =
      map (\<lambda>armor. armor\<lparr>d_x := d_x armor + d_x car, d_y := d_y armor + d_y car\<rparr>) armors"
    by (simp add: shift_armor_def)
  show ?thesis
    using False p(2) lc win best shift
    by (simp add: new_Robot_def setDetection_def empty_Robot_def count_label_def)
qed

text \<open>Three armors, two of label 3 (confidences 0.8 and 0.6) and one of label 5 (confidence 1).\<close>

theorem setDetection_assembles_witness:
  "[\<lparr>d_x = 1, d_y = 2, d_width = 4, d_height = 3, d_label = 3, d_confidence = 4/5\<rparr>,
    \<lparr>d_x = 30, d_y = 5, d_width = 4, d_height = 3, d_label = 5, d_confidence = 1\<rparr>,
    \<lparr>d_x = 60, d_y = 7, d_width = 4, d_height = 3, d_label = 3, d_confidence = 3/5\<rparr>] \<noteq> [] \<and>
   (let car = \<lparr>d_x = 10, d_y = 20, d_width = 100, d_height = 50, d_label = 0, d_confidence = 9/10\<rparr>;
        armors =
          [\<lparr>d_x = 1, d_y = 2, d_width = 4, d_height = 3, d_label = 3, d_confidence = 4/5\<rparr>,
           \<lparr>d_x = 30, d_y = 5, d_width = 4, d_height = 3, d_label = 5, d_confidence = 1\<rparr>,
           \<lparr>d_x = 60, d_y = 7, d_width = 4, d_height = 3, d_label = 3, d_confidence = 3/5\<rparr>];
        r = new_Robot car armors
    in r_rect r = Some (10, 20, 100, 50) \<and>
       r_label r = Some 3 \<and>
       label_score 3 armors = 7/5 \<and> label_score 5 armors = 1 \<and>
       r_confidence r = Some (7/10) \<and>
       r_armors r =
         Some [\<lparr>d_x = 11, d_y = 22, d_width = 4, d_height = 3, d_label = 3, d_confidence = 4/5\<rparr>,
               \<lparr>d_x = 40, d_y = 25, d_width = 4, d_height = 3, d_label = 5, d_confidence = 1\<rparr>,
               \<lparr>d_x = 70, d_y = 27, d_width = 4, d_height = 3, d_label = 3, d_confidence = 3/5\<rparr>])"
  using setDetection_assembles
    [of "\<lparr>d_x = 10, d_y = 20, d_width = 100, d_height = 50, d_label = 0, d_confidence = 9/10\<rparr>"
        "[\<lparr>d_x = 1, d_y = 2, d_width = 4, d_height = 3, d_label = 3, d_confidence = 4/5\<rparr>,
          \<lparr>d_x = 30, d_y = 5, d_width = 4, d_height = 3, d_label = 5, d_confidence = 1\<rparr>,
          \<lparr>d_x = 60, d_y = 7, d_width = 4, d_height = 3, d_label = 3, d_confidence = 3/5\<rparr>]"]
  by (simp add: new_Robot_def setDetection_def empty_Robot_def score_map_of_def count_label_def
      shift_armor_def label_score_def)

lemma feature_loop_ok:
  "\<forall>armor\<in>set armors. 0 \<le> d_label armor \<and> d_label armor < int (length f0) \<Longrightarrow>
   \<exists>f. feature_loop armors f0 = Inr f \<and> length f = length f0 \<and>
       (\<forall>i<length f0. f ! i = f0 ! i + label_score (int i) armors)"
proof (induction armors arbitrary: f0)
  case Nil
  then show ?case by (simp add: label_score_def)
next
  case (Cons a armors)
  let ?f1 = "f0[nat (d_label a) := f0 ! nat (d_label a) + d_confidence a]"
  have a: "0 \<le> d_label a" "d_label a < int (length f0)" using Cons.prems by auto
  have step: "feature_add a f0 = Inr ?f1" using a by (simp add: feature_add_def)
  have "\<forall>armor\<in>set armors. 0 \<le> d_label armor \<and> d_label armor < int (length ?f1)"
    using Cons.prems by simp
  from Cons.IH[OF this] obtain f where f: "feature_loop armors ?f1 = Inr f"
      "length f = length f0" "\<forall>i<length f0. f ! i = ?f1 ! i + label_score (int i) armors"
    by auto
  have "f ! i = f0 ! i + label_score (int i) (a # armors)" if "i < length f0" for i
  proof (cases "i = nat (d_label a)")
    case True
    then show ?thesis using f(3) that a by (simp add: label_score_def)
  next
    case False
    then have "int i \<noteq> d_label a" using a by auto
    then show ?thesis using f(3) that False by (simp add: label_score_def)
  qed
  then show ?case using step f by simp
qed

lemma sum_list_bump:
  "k < length xs \<Longrightarrow> sum_list (xs[k := xs ! k + c]) = sum_list xs + (c :: real)"
proof (induction xs arbitrary: k)
  case Nil
  then show ?case by simp
next
  case (Cons x xs)
  then show ?case by (cases k) auto
qed

lemma feature_loop_sum:
  "feature_loop armors f0 = Inr f \<Longrightarrow>
   sum_list f = sum_list f0 + sum_list (map d_confidence armors)"
proof (induction armors arbitrary: f0)
  case Nil
  then show ?case by simp
next
  case (Cons a armors)
  then show ?case
    by (auto simp: feature_add_def sum_list_bump split: if_splits sum.splits)
qed

lemma sum_list_nonneg_zero:
  "\<forall>v\<in>set xs. 0 \<le> (v :: real) \<Longrightarrow> sum_list xs = 0 \<Longrightarrow> \<forall>v\<in>set xs. v = 0"
  by (induction xs) (auto simp: add_nonneg_eq_0_iff sum_list_nonneg)

lemma label_score_nonneg:
  "\<forall>armor\<in>set armors. 0 \<le> d_confidence armor \<Longrightarrow> 0 \<le> label_score l armors"
  by (auto simp: label_score_def intro!: sum_list_nonneg)

lemma sum_list_zeros: "sum_list (replicate n (0::real)) = 0"
  by (induction n) auto

lemma sum_list_div: "sum_list (map (\<lambda>v. v / c) xs) = sum_list xs / (c :: real)"
  by (induction xs) (auto simp: add_divide_distrib)

text \<open>
  Claim C6, as amended. Let \<open>class_num\<close> be non-negative, the armor labels lie within
  \<open>0 \<le> label < class_num\<close> and the armor confidences be non-negative. For a robot that
  is not detected, \<open>feature\<close> returns the zero vector of \<open>class_num\<close> entries. For a
  detected robot that holds its armors, \<open>feature\<close> returns a vector of \<open>class_num\<close>
  entries whose L1 norm is 0 or 1; it is the zero vector exactly when the armor confidences
  sum to zero, and otherwise entry \<open>i\<close> is the summed confidence of the armors with label
  \<open>i\<close> divided by the total. Nothing is said of a detected robot without armors.
\<close>

theorem feature_normalised:
  assumes cn: "0 \<le> class_num"
    and lab: "\<forall>armor\<in>set (case r_armors r of None \<Rightarrow> [] | Some armors \<Rightarrow> armors).
                 0 \<le> d_label armor \<and> d_label armor < class_num"
    and conf: "\<forall>armor\<in>set (case r_armors r of None \<Rightarrow> [] | Some armors \<Rightarrow> armors).
                 0 \<le> d_confidence armor"
  shows "(\<not> isDetected r \<longrightarrow>
            feature class_num r = Inr (replicate (nat class_num) 0) \<and>
            l1_norm (replicate (nat class_num) 0) = 0) \<and>
         (\<forall>armors. isDetected r \<and> r_armors r = Some armors \<longrightarrow>
            (\<exists>f. feature class_num r = Inr f \<and> length f = nat class_num \<and>
               (l1_norm f = 0 \<or> l1_norm f = 1) \<and>
               ((f = replicate (nat class_num) 0) \<longleftrightarrow>
                  sum_list (map d_confidence armors) = 0) \<and>
               (f \<noteq> replicate (nat class_num) 0 \<longrightarrow>
                  (\<forall>i<nat class_num. f ! i =
                     label_score (int i) armors / sum_list (map d_confidence armors)))))"
proof (intro conjI allI impI)
  assume "\<not> isDetected r"
  then show "feature class_num r = Inr (replicate (nat class_num) 0)"
    using cn by (simp add: feature_def)
next
  show "l1_norm (replicate (nat class_num) 0) = 0"
    by (simp add: l1_norm_def sum_list_zeros)
next
  fix armors
  assume a: "isDetected r \<and> r_armors r = Some armors"
  then have det: "isDetected r" and Some: "r_armors r = Some armors" by simp_all
  let ?n = "nat class_num"
  let ?z = "replicate ?n (0::real)"
  let ?tot = "sum_list (map d_confidence armors)"
  have inr: "\<forall>armor\<in>set armors. 0 \<le> d_label armor \<and> d_label armor < int (length ?z)"
    using lab Some cn by simp
  from feature_loop_ok[OF inr] obtain g where g: "feature_loop armors ?z = Inr g"
      "length g = ?n" "\<forall>i<?n. g ! i = label_score (int i) armors"
    by auto
  have gsum: "sum_list g = ?tot" using feature_loop_sum[OF g(1)] by (simp add: sum_list_zeros)
  have gpos: "\<forall>v\<in>set g. 0 \<le> v"
    using g(2,3) conf Some label_score_nonneg[of armors] by (auto simp: in_set_conv_nth)
  have feat: "feature class_num r = Inr (if ?tot = 0 then g else map (\<lambda>v. v / ?tot) g)"
    using cn det Some g(1) gsum by (simp add: feature_def iszero_float_def)
  show "\<exists>f. feature class_num r = Inr f \<and> length f = nat class_num \<and>
               (l1_norm f = 0 \<or> l1_norm f = 1) \<and>
               ((f = replicate (nat class_num) 0) \<longleftrightarrow>
                  sum_list (map d_confidence armors) = 0) \<and>
               (f \<noteq> replicate (nat class_num) 0 \<longrightarrow>
                  (\<forall>i<nat class_num. f ! i =
                     label_score (int i) armors / sum_list (map d_confidence armors)))"
  proof (cases "?tot = 0")
    case True
    have "\<forall>v\<in>set g. v = 0" using sum_list_nonneg_zero[OF gpos] gsum True by simp
    then have gz: "g = ?z" using g(2) by (simp add: list_eq_iff_nth_eq)
    show ?thesis using feat True gz by (simp add: l1_norm_def sum_list_zeros)
  next
    case False
    let ?f = "map (\<lambda>v. v / ?tot) g"
    have totpos: "0 < ?tot" using False conf Some sum_list_nonneg[of "map d_confidence armors"]
      by (force simp: less_le)
    have "map abs ?f = ?f"
    proof (rule map_idI)
      fix v assume "v \<in> set ?f"
      then obtain w where "w \<in> set g" "v = w / ?tot" by auto
      then show "\<bar>v\<bar> = v" using gpos totpos by simp
    qed
    then have "l1_norm ?f = sum_list ?f" unfolding l1_norm_def by (rule arg_cong)
    also have "\<dots> = sum_list g / ?tot" by (rule sum_list_div)
    finally have l1: "l1_norm ?f = 1" using gsum False by simp
    have nz: "?f \<noteq> ?z"
    proof
      assume "?f = ?z"
      then have "l1_norm ?f = 0" by (simp add: l1_norm_def sum_list_zeros)
      then show False using l1 by simp
    qed
    have ent: "\<forall>i<?n. ?f ! i = label_score (int i) armors / ?tot" using g(2,3) by simp
    show ?thesis using feat False l1 nz ent g(2) by simp
  qed
qed

text \<open>
  Claim C6 as stated ("for every Robot and every class_num") fails in three ways. An armor
  whose label is 5 indexes outside a feature vector of 3 entries. A robot assembled without
  armors and then labelled by \<open>setTrack\<close> is detected, and \<open>feature\<close> calls
  \<open>armors_.value()\<close> on its empty optional. A negative \<open>class_num\<close> is no vector size.
  In each case no vector is returned.
\<close>

theorem feature_label_range_counterexample:
  "feature 3 (new_Robot
      \<lparr>d_x = 10, d_y = 20, d_width = 100, d_height = 50, d_label = 0, d_confidence = 9/10\<rparr>
      [\<lparr>d_x = 1, d_y = 2, d_width = 4, d_height = 3, d_label = 5, d_confidence = 4/5\<rparr>])
   = Inl IndexOutOfRange \<and>
   feature 3 (setTrack
      \<lparr>op_predict = (\<lambda>ts f. f), op_update = (\<lambda>p feat (l, q). (l, p)),
        op_init = (\<lambda>p feat ts. (0, p)), op_label = fst, op_location = snd,
        op_feature = (\<lambda>f. [])\<rparr>
      \<lparr>t_track_id = 0, t_state = Confirmed, t_init_count = 3, t_miss_count = 0,
        t_filter = (1::int, (1, 2, 0) :: point3)\<rparr>
      (new_Robot
        \<lparr>d_x = 10, d_y = 20, d_width = 100, d_height = 50, d_label = 0, d_confidence = 9/10\<rparr>
        []))
   = Inl BadOptionalAccess \<and>
   feature (- 1) (new_Robot
      \<lparr>d_x = 10, d_y = 20, d_width = 100, d_height = 50, d_label = 0, d_confidence = 9/10\<rparr>
      [])
   = Inl AssertionFailed"
  by (simp add: new_Robot_def setDetection_def empty_Robot_def score_map_of_def count_label_def
      shift_armor_def feature_def isDetected_def feature_add_def setTrack_def isConfirmed_def)

text \<open>
  A robot with armors of the labels 2, 0 and 2, and a robot assembled without armors.
\<close>

theorem feature_normalised_witness:
  "(let car = \<lparr>d_x = 10, d_y = 20, d_width = 100, d_height = 50, d_label = 0, d_confidence = 9/10\<rparr>;
        r = new_Robot car
        [\<lparr>d_x = 1, d_y = 2, d_width = 4, d_height = 3, d_label = 2, d_confidence = 3/4\<rparr>,
         \<lparr>d_x = 30, d_y = 5, d_width = 4, d_height = 3, d_label = 0, d_confidence = 1/4\<rparr>,
         \<lparr>d_x = 60, d_y = 7, d_width = 4, d_height = 3, d_label = 2, d_confidence = 1\<rparr>]
    in (0::int) \<le> 3 \<and> isDetected r \<and> r_armors r \<noteq> None \<and>
       feature 3 r = Inr [1/8, 0, 7/8] \<and> l1_norm [1/8, 0, 7/8] = 1 \<and>
       \<not> isDetected (new_Robot car []) \<and>
       feature 3 (new_Robot car []) = Inr [0, 0, 0] \<and> l1_norm [0, 0, 0] = 0)"
  using feature_normalised
    [of 3 "new_Robot
        \<lparr>d_x = 10, d_y = 20, d_width = 100, d_height = 50, d_label = 0, d_confidence = 9/10\<rparr>
        [\<lparr>d_x = 1, d_y = 2, d_width = 4, d_height = 3, d_label = 2, d_confidence = 3/4\<rparr>,
         \<lparr>d_x = 30, d_y = 5, d_width = 4, d_height = 3, d_label = 0, d_confidence = 1/4\<rparr>,
         \<lparr>d_x = 60, d_y = 7, d_width = 4, d_height = 3, d_label = 2, d_confidence = 1\<rparr>]"]
    feature_normalised
    [of 3 "new_Robot
        \<lparr>d_x = 10, d_y = 20, d_width = 100, d_height = 50, d_label = 0, d_confidence = 9/10\<rparr>
        []"]
  by (simp add: new_Robot_def setDetection_def empty_Robot_def score_map_of_def count_label_def
      shift_armor_def feature_def isDetected_def feature_add_def iszero_float_def l1_norm_def
      eval_nat_numeral)

subsection \<open>Tracker\<close>

lemma calculateDistance_nonneg: "0 \<le> calculateDistance p1 p2"
  by (cases p1, cases p2) (simp add: calculateDistance_def)

lemma distance_score_of_cases:
  assumes "0 \<le> d"
  shows "(d < D \<longrightarrow> distance_score_of D d = 1) \<and>
   (D \<le> d \<and> d < 2 * D \<longrightarrow> distance_score_of D d = 1.5 - d / (2 * D)) \<and>
   (2 * D \<le> d \<longrightarrow> distance_score_of D d = 0.5 * exp (2 - d / D))"
proof -
  have "\<not> d < D \<and> \<not> d < 2 * D" if "2 * D \<le> d"
    using that assms by (cases "0 < D") auto
  then show ?thesis by (auto simp: distance_score_of_def)
qed

lemma distance_score_of_breakpoints:
  "0 < D \<Longrightarrow> distance_score_of D D = 1 \<and> distance_score_of D (2 * D) = 0.5"
  by (simp add: distance_score_of_def)

lemma distance_score_of_isCont_D:
  assumes "0 < D"
  shows "isCont (distance_score_of D) D"
proof -
  have eq: "\<forall>\<^sub>F d in at D. distance_score_of D d = min 1 (1.5 - d / (2 * D))"
  proof -
    have "\<forall>\<^sub>F d in at D. d < 2 * D"
      using assms by (intro eventually_at_topological[THEN iffD2] exI[of _ "{..<2 * D}"]) auto
    then show ?thesis
    proof (eventually_elim)
      case (elim d)
      then show ?case using assms by (auto simp: distance_score_of_def min_def field_simps)
    qed
  qed
  have val: "distance_score_of D D = min 1 (1.5 - D / (2 * D))"
    using assms by (simp add: distance_score_of_def)
  have "isCont (\<lambda>d. min 1 (1.5 - d / (2 * D))) D"
    by (intro continuous_intros) (use assms in auto)
  then show ?thesis
    unfolding isCont_def using eq val by (simp add: tendsto_cong)
qed

lemma distance_score_of_isCont_2D:
  assumes "0 < D"
  shows "isCont (distance_score_of D) (2 * D)"
proof -
  have eq: "\<forall>\<^sub>F d in at (2 * D). distance_score_of D d =
              (if d \<le> 2 * D then 1.5 - d / (2 * D) else 0.5 * exp (2 - d / D))"
  proof -
    have "\<forall>\<^sub>F d in at (2 * D). D < d"
      using assms by (intro eventually_at_topological[THEN iffD2] exI[of _ "{D<..}"]) auto
    then show ?thesis
    proof (eventually_elim)
      case (elim d)
      then show ?case using assms by (auto simp: distance_score_of_def)
    qed
  qed
  have val: "distance_score_of D (2 * D) = 1.5 - (2 * D) / (2 * D)"
    using assms by (simp add: distance_score_of_def)
  have "isCont (\<lambda>d. if d \<le> 2 * D then 1.5 - d / (2 * D) else 0.5 * exp (2 - d / D)) (2 * D)"
  proof (rule isCont_If_ge)
    show "continuous (at_left (2 * D)) (\<lambda>d. 1.5 - d / (2 * D))"
      by (intro continuous_intros) (use assms in auto)
    have "((\<lambda>d. 0.5 * exp (2 - d / D)) \<longlongrightarrow> 0.5 * exp (2 - (2 * D) / D)) (at_right (2 * D))"
      by (intro tendsto_intros) (use assms in auto)
    then show "((\<lambda>d. 0.5 * exp (2 - d / D)) \<longlongrightarrow> 1.5 - (2 * D) / (2 * D)) (at_right (2 * D))"
      using assms by simp
  qed
  then show ?thesis
    unfolding isCont_def using eq val by (simp add: tendsto_cong)
qed

lemma calculateCost_located:
  assumes "r_location robot = Some loc"
    and "feature (tk_class_num tk) robot = Inr feature_robot"
    and "length feature_robot = length (op_feature ops (t_filter track))"
  shows "calculateCost ops tk track robot =
     Inr (distance_score_of (tk_distance_thresh tk)
            (calculateDistance loc (op_location ops (t_filter track))) * tk_distance_weight tk +
          (dot feature_robot (op_feature ops (t_filter track)) /
             (norm2 feature_robot * norm2 (op_feature ops (t_filter track))) + 1) / 2 *
          tk_feature_weight tk)"
  using assms
  by (simp add: calculateCost_def distance_score_def isLocated_def location_value_def Let_def)

lemma calculateCost_unlocated:
  assumes "r_location robot = None"
  shows "(\<not> isDetected robot \<longrightarrow> calculateCost ops tk track robot = Inr 0) \<and>
         (\<forall>feature_robot. isDetected robot \<and>
            feature (tk_class_num tk) robot = Inr feature_robot \<and>
            length feature_robot = length (op_feature ops (t_filter track)) \<longrightarrow>
            calculateCost ops tk track robot =
              Inr (0 * tk_distance_weight tk +
                   (dot feature_robot (op_feature ops (t_filter track)) /
                      (norm2 feature_robot * norm2 (op_feature ops (t_filter track))) + 1) / 2 *
                   tk_feature_weight tk))"
  using assms
  by (simp add: calculateCost_def distance_score_def isLocated_def Let_def)

text \<open>
  Claim C4. With \<open>D = distance_thresh\<close> and \<open>d\<close> the distance between the located
  robot and the track, the distance score of \<open>calculateCost\<close> is 1 for \<open>d < D\<close>,
  \<open>1.5 - d / (2 D)\<close> for \<open>D \<le> d < 2 D\<close> and \<open>0.5 exp (2 - d / D)\<close> for \<open>d \<ge> 2 D\<close>
  (with \<open>D \<noteq> 0\<close>, so that the quotient is a real number); it is 0 for a robot that is
  not located. The cost that \<open>calculateCost\<close> returns is this score times
  \<open>distance_weight\<close> plus the feature score times \<open>feature_weight\<close> (for features of
  equal size and non-zero norm), and 0 for a robot that is neither located nor detected.
  For a threshold \<open>D > 0\<close>, where \<open>D\<close> and \<open>2 D\<close> are distances, the score is
  continuous at both breakpoints, with value 1 at \<open>d = D\<close> and 0.5 at \<open>d = 2 D\<close>.
\<close>

theorem distance_score_piecewise:
  "(r_location robot = None \<longrightarrow>
      distance_score ops tk track robot = Inr 0 \<and>
      (\<not> isDetected robot \<longrightarrow> calculateCost ops tk track robot = Inr 0) \<and>
      (\<forall>feature_robot. isDetected robot \<and>
         feature (tk_class_num tk) robot = Inr feature_robot \<and>
         length feature_robot = length (op_feature ops (t_filter track)) \<and>
         norm2 feature_robot * norm2 (op_feature ops (t_filter track)) \<noteq> 0 \<longrightarrow>
         calculateCost ops tk track robot =
           Inr (0 * tk_distance_weight tk +
                (dot feature_robot (op_feature ops (t_filter track)) /
                   (norm2 feature_robot * norm2 (op_feature ops (t_filter track))) + 1) / 2 *
                tk_feature_weight tk))) \<and>
   (\<forall>loc. r_location robot = Some loc \<longrightarrow>
      (let d = calculateDistance loc (op_location ops (t_filter track));
           D = tk_distance_thresh tk
       in (d < D \<longrightarrow> distance_score ops tk track robot = Inr 1) \<and>
          (D \<le> d \<and> d < 2 * D \<longrightarrow>
             distance_score ops tk track robot = Inr (1.5 - d / (2 * D))) \<and>
          (D \<noteq> 0 \<and> 2 * D \<le> d \<longrightarrow>
             distance_score ops tk track robot = Inr (0.5 * exp (2 - d / D))) \<and>
          (0 < D \<and> d = D \<longrightarrow> distance_score ops tk track robot = Inr 1) \<and>
          (0 < D \<and> d = 2 * D \<longrightarrow> distance_score ops tk track robot = Inr 0.5) \<and>
          (\<forall>feature_robot s_d.
             distance_score ops tk track robot = Inr s_d \<and>
             feature (tk_class_num tk) robot = Inr feature_robot \<and>
             length feature_robot = length (op_feature ops (t_filter track)) \<and>
             norm2 feature_robot * norm2 (op_feature ops (t_filter track)) \<noteq> 0 \<longrightarrow>
             calculateCost ops tk track robot =
               Inr (s_d * tk_distance_weight tk +
                    (dot feature_robot (op_feature ops (t_filter track)) /
                       (norm2 feature_robot * norm2 (op_feature ops (t_filter track))) + 1) / 2 *
                    tk_feature_weight tk)))) \<and>
   (0 < tk_distance_thresh tk \<longrightarrow>
      isCont (distance_score_of (tk_distance_thresh tk)) (tk_distance_thresh tk) \<and>
      isCont (distance_score_of (tk_distance_thresh tk)) (2 * tk_distance_thresh tk))"
proof -
  let ?D = "tk_distance_thresh tk"
  have located: "distance_score ops tk track robot =
      Inr (distance_score_of ?D (calculateDistance loc (op_location ops (t_filter track))))"
    if "r_location robot = Some loc" for loc
    using that by (simp add: distance_score_def isLocated_def location_value_def)
  have unlocated: "r_location robot = None \<longrightarrow>
      distance_score ops tk track robot = Inr 0 \<and>
      (\<not> isDetected robot \<longrightarrow> calculateCost ops tk track robot = Inr 0) \<and>
      (\<forall>feature_robot. isDetected robot \<and>
         feature (tk_class_num tk) robot = Inr feature_robot \<and>
         length feature_robot = length (op_feature ops (t_filter track)) \<and>
         norm2 feature_robot * norm2 (op_feature ops (t_filter track)) \<noteq> 0 \<longrightarrow>
         calculateCost ops tk track robot =
           Inr (0 * tk_distance_weight tk +
                (dot feature_robot (op_feature ops (t_filter track)) /
                   (norm2 feature_robot * norm2 (op_feature ops (t_filter track))) + 1) / 2 *
                tk_feature_weight tk))"
  proof (intro impI conjI)
    assume n: "r_location robot = None"
    show "distance_score ops tk track robot = Inr 0"
      using n by (simp add: distance_score_def isLocated_def)
    show "\<not> isDetected robot \<Longrightarrow> calculateCost ops tk track robot = Inr 0"
      using calculateCost_unlocated[OF n, of ops tk track] by blast
    show "\<forall>feature_robot. isDetected robot \<and>
         feature (tk_class_num tk) robot = Inr feature_robot \<and>
         length feature_robot = length (op_feature ops (t_filter track)) \<and>
         norm2 feature_robot * norm2 (op_feature ops (t_filter track)) \<noteq> 0 \<longrightarrow>
         calculateCost ops tk track robot =
           Inr (0 * tk_distance_weight tk +
                (dot feature_robot (op_feature ops (t_filter track)) /
                   (norm2 feature_robot * norm2 (op_feature ops (t_filter track))) + 1) / 2 *
                tk_feature_weight tk)"
      using calculateCost_unlocated[OF n, of ops tk track] by blast
  qed
  have pieces: "(d < ?D \<longrightarrow> distance_score_of ?D d = 1) \<and>
      (?D \<le> d \<and> d < 2 * ?D \<longrightarrow> distance_score_of ?D d = 1.5 - d / (2 * ?D)) \<and>
      (?D \<noteq> 0 \<and> 2 * ?D \<le> d \<longrightarrow> distance_score_of ?D d = 0.5 * exp (2 - d / ?D)) \<and>
      (0 < ?D \<and> d = ?D \<longrightarrow> distance_score_of ?D d = 1) \<and>
      (0 < ?D \<and> d = 2 * ?D \<longrightarrow> distance_score_of ?D d = 0.5)" if "0 \<le> d" for d
    using distance_score_of_cases[OF that, of ?D] distance_score_of_breakpoints[of ?D]
    by auto
  have at_loc: "\<forall>loc. r_location robot = Some loc \<longrightarrow>
      (let d = calculateDistance loc (op_location ops (t_filter track));
           D = tk_distance_thresh tk
       in (d < D \<longrightarrow> distance_score ops tk track robot = Inr 1) \<and>
          (D \<le> d \<and> d < 2 * D \<longrightarrow>
             distance_score ops tk track robot = Inr (1.5 - d / (2 * D))) \<and>
          (D \<noteq> 0 \<and> 2 * D \<le> d \<longrightarrow>
             distance_score ops tk track robot = Inr (0.5 * exp (2 - d / D))) \<and>
          (0 < D \<and> d = D \<longrightarrow> distance_score ops tk track robot = Inr 1) \<and>
          (0 < D \<and> d = 2 * D \<longrightarrow> distance_score ops tk track robot = Inr 0.5) \<and>
          (\<forall>feature_robot s_d.
             distance_score ops tk track robot = Inr s_d \<and>
             feature (tk_class_num tk) robot = Inr feature_robot \<and>
             length feature_robot = length (op_feature ops (t_filter track)) \<and>
             norm2 feature_robot * norm2 (op_feature ops (t_filter track)) \<noteq> 0 \<longrightarrow>
             calculateCost ops tk track robot =
               Inr (s_d * tk_distance_weight tk +
                    (dot feature_robot (op_feature ops (t_filter track)) /
                       (norm2 feature_robot * norm2 (op_feature ops (t_filter track))) + 1) / 2 *
                    tk_feature_weight tk)))"
  proof (intro allI impI)
    fix loc assume loc: "r_location robot = Some loc"
    let ?d = "calculateDistance loc (op_location ops (t_filter track))"
    have cost: "calculateCost ops tk track robot =
               Inr (s_d * tk_distance_weight tk +
                    (dot feature_robot (op_feature ops (t_filter track)) /
                       (norm2 feature_robot * norm2 (op_feature ops (t_filter track))) + 1) / 2 *
                    tk_feature_weight tk)"
      if "distance_score ops tk track robot = Inr s_d \<and>
             feature (tk_class_num tk) robot = Inr feature_robot \<and>
             length feature_robot = length (op_feature ops (t_filter track)) \<and>
             norm2 feature_robot * norm2 (op_feature ops (t_filter track)) \<noteq> 0"
      for feature_robot s_d
    proof -
      have "s_d = distance_score_of ?D ?d" using that located[OF loc] by simp
      then show ?thesis
        using calculateCost_located[OF loc, of tk feature_robot ops track] that by simp
    qed
    have dist: "(?d < ?D \<longrightarrow> distance_score ops tk track robot = Inr 1) \<and>
          (?D \<le> ?d \<and> ?d < 2 * ?D \<longrightarrow>
             distance_score ops tk track robot = Inr (1.5 - ?d / (2 * ?D))) \<and>
          (?D \<noteq> 0 \<and> 2 * ?D \<le> ?d \<longrightarrow>
             distance_score ops tk track robot = Inr (0.5 * exp (2 - ?d / ?D))) \<and>
          (0 < ?D \<and> ?d = ?D \<longrightarrow> distance_score ops tk track robot = Inr 1) \<and>
          (0 < ?D \<and> ?d = 2 * ?D \<longrightarrow> distance_score ops tk track robot = Inr 0.5)"
      unfolding located[OF loc] sum.inject
      using pieces[OF calculateDistance_nonneg, of loc "op_location ops (t_filter track)"]
      by blast
    show "let d = calculateDistance loc (op_location ops (t_filter track));
              D = tk_distance_thresh tk
       in (d < D \<longrightarrow> distance_score ops tk track robot = Inr 1) \<and>
          (D \<le> d \<and> d < 2 * D \<longrightarrow>
             distance_score ops tk track robot = Inr (1.5 - d / (2 * D))) \<and>
          (D \<noteq> 0 \<and> 2 * D \<le> d \<longrightarrow>
             distance_score ops tk track robot = Inr (0.5 * exp (2 - d / D))) \<and>
          (0 < D \<and> d = D \<longrightarrow> distance_score ops tk track robot = Inr 1) \<and>
          (0 < D \<and> d = 2 * D \<longrightarrow> distance_score ops tk track robot = Inr 0.5) \<and>
          (\<forall>feature_robot s_d.
             distance_score ops tk track robot = Inr s_d \<and>
             feature (tk_class_num tk) robot = Inr feature_robot \<and>
             length feature_robot = length (op_feature ops (t_filter track)) \<and>
             norm2 feature_robot * norm2 (op_feature ops (t_filter track)) \<noteq> 0 \<longrightarrow>
             calculateCost ops tk track robot =
               Inr (s_d * tk_distance_weight tk +
                    (dot feature_robot (op_feature ops (t_filter track)) /
                       (norm2 feature_robot * norm2 (op_feature ops (t_filter track))) + 1) / 2 *
                    tk_feature_weight tk))"
      unfolding Let_def using dist cost by blast
  qed
  show ?thesis
    using unlocated at_loc distance_score_of_isCont_D[of ?D]
      distance_score_of_isCont_2D[of ?D]
    by blast
qed

lemma sqrt_nine: "sqrt 9 = 3"
  by (rule real_sqrt_unique) simp_all

text \<open>
  A track at the origin with feature \<open>(0, 1)\<close>, threshold 2 and weights 2 and 3, and a
  robot with one armor of label 1: unlocated, and at the distances 1, 2, 3 and 4.
\<close>

theorem distance_score_piecewise_witness:
  "(let ops = \<lparr>op_predict = (\<lambda>ts f. f), op_update = (\<lambda>p feat f. (p, feat)),
               op_init = (\<lambda>p feat ts. (p, feat)), op_label = (\<lambda>f. 0), op_location = fst,
               op_feature = snd\<rparr>;
        tk = \<lparr>tk_class_num = 2, tk_init_thresh = 3, tk_miss_thresh = 2, tk_distance_weight = 2,
              tk_feature_weight = 3, tk_max_iter = 100, tk_distance_thresh = 2,
              tk_latest_id = 1, tk_tracks = []\<rparr>;
        track = \<lparr>t_track_id = 0, t_state = Confirmed, t_init_count = 3, t_miss_count = 0,
              t_filter = ((0, 0, 0) :: point3, [0, 1 :: real])\<rparr>;
        unlocated = \<lparr>r_rect = Some (0, 0, 10, 10), r_label = Some 1, r_confidence = Some 1,
              r_armors = Some [\<lparr>d_x = 1, d_y = 2, d_width = 4, d_height = 3, d_label = 1,
                                d_confidence = 1\<rparr>],
              r_location = None, r_track_state = None\<rparr>
    in (0::real) < tk_distance_thresh tk \<and>
       feature (tk_class_num tk) unlocated = Inr [0, 1] \<and>
       norm2 [0, 1] * norm2 (op_feature ops (t_filter track)) = 1 \<and>
       distance_score ops tk track unlocated = Inr 0 \<and>
       calculateCost ops tk track unlocated = Inr 3 \<and>
       calculateCost ops tk track (unlocated\<lparr>r_label := None\<rparr>) = Inr 0 \<and>
       calculateDistance (1, 0, 0) (0, 0, 0) = 1 \<and>
       distance_score ops tk track (unlocated\<lparr>r_location := Some (1, 0, 0)\<rparr>) = Inr 1 \<and>
       calculateCost ops tk track (unlocated\<lparr>r_location := Some (1, 0, 0)\<rparr>) = Inr 5 \<and>
       calculateDistance (2, 0, 0) (0, 0, 0) = 2 \<and>
       distance_score ops tk track (unlocated\<lparr>r_location := Some (2, 0, 0)\<rparr>) = Inr 1 \<and>
       calculateDistance (3, 0, 0) (0, 0, 0) = 3 \<and>
       distance_score ops tk track (unlocated\<lparr>r_location := Some (3, 0, 0)\<rparr>) = Inr (3 / 4) \<and>
       calculateCost ops tk track (unlocated\<lparr>r_location := Some (3, 0, 0)\<rparr>) = Inr (9 / 2) \<and>
       calculateDistance (4, 0, 0) (0, 0, 0) = 4 \<and>
       distance_score ops tk track (unlocated\<lparr>r_location := Some (4, 0, 0)\<rparr>) = Inr (1 / 2) \<and>
       calculateCost ops tk track (unlocated\<lparr>r_location := Some (4, 0, 0)\<rparr>) = Inr 4)"
  using distance_score_piecewise
    [of "\<lparr>r_rect = Some (0, 0, 10, 10), r_label = Some 1, r_confidence = Some 1,
              r_armors = Some [\<lparr>d_x = 1, d_y = 2, d_width = 4, d_height = 3, d_label = 1,
                                d_confidence = 1\<rparr>],
              r_location = Some (3, 0, 0), r_track_state = None\<rparr>"
        "\<lparr>op_predict = (\<lambda>ts f. f), op_update = (\<lambda>p feat f. (p, feat)),
               op_init = (\<lambda>p feat ts. (p, feat)), op_label = (\<lambda>f. 0), op_location = fst,
               op_feature = snd\<rparr>"
        "\<lparr>tk_class_num = 2, tk_init_thresh = 3, tk_miss_thresh = 2, tk_distance_weight = 2,
              tk_feature_weight = 3, tk_max_iter = 100, tk_distance_thresh = 2,
              tk_latest_id = 1, tk_tracks = []\<rparr>"
        "\<lparr>t_track_id = 0, t_state = Confirmed, t_init_count = 3, t_miss_count = 0,
              t_filter = ((0, 0, 0) :: point3, [0, 1 :: real])\<rparr>"]
  by (simp add: Let_def calculateCost_def distance_score_def isLocated_def isDetected_def
      location_value_def calculateDistance_def distance_score_of_def sqrt_nine
      feature_def feature_add_def iszero_float_def dot_def norm2_def eval_nat_numeral)

lemma matched_track_located:
  assumes "r_location robot = Some loc" and "feature (tk_class_num tk) robot = Inr feat"
  shows "\<exists>track'. matched_track ops tk track robot = Inr track' \<and>
           t_filter track' = op_update ops loc feat (t_filter track) \<and>
           (t_state track = Tentative \<longrightarrow> t_miss_count track' = 0) \<and>
           (t_state track \<noteq> Tentative \<longrightarrow>
              t_miss_count track' = t_miss_count track \<and> t_state track' = t_state track)"
  using assms
  by (simp add: matched_track_def isLocated_def location_value_def isTentative_def Let_def
      setState_def)

text \<open>
  Claim C1 fails on the code. A Confirmed track with \<open>miss_count = 1\<close> is matched to a
  located robot: \<open>Tracker::update\<close> updates the filter with the robot's location, and the
  track is still Confirmed with \<open>miss_count = 1\<close> afterwards, because
  \<open>track.miss_count_ = 0\<close> stands inside the branch \<open>if (track.isTentative())\<close>.
\<close>

theorem Tracker_update_keeps_miss_count:
  "(let ops = \<lparr>op_predict = (\<lambda>ts f. f), op_update = (\<lambda>p feat f. (p, feat)),
               op_init = (\<lambda>p feat ts. (p, feat)), op_label = (\<lambda>f. 1), op_location = fst,
               op_feature = snd\<rparr>;
        track = \<lparr>t_track_id = 0, t_state = Confirmed, t_init_count = 3, t_miss_count = 1,
              t_filter = ((0, 0, 0) :: point3, [0, 1 :: real])\<rparr>;
        tk = \<lparr>tk_class_num = 2, tk_init_thresh = 3, tk_miss_thresh = 5, tk_distance_weight = 1,
              tk_feature_weight = 1, tk_max_iter = 100, tk_distance_thresh = 2,
              tk_latest_id = 1, tk_tracks = [track]\<rparr>;
        robot = setLocation (1, 0, 0) (new_Robot
              \<lparr>d_x = 10, d_y = 20, d_width = 100, d_height = 50, d_label = 0, d_confidence = 1\<rparr>
              [\<lparr>d_x = 1, d_y = 2, d_width = 4, d_height = 3, d_label = 1, d_confidence = 1\<rparr>])
    in isLocated robot \<and>
       (\<exists>tk' robots'. Tracker_update ops (\<lambda>cost max_iter. [0]) tk [robot] 7 = Inr (tk', robots') \<and>
          tk_tracks tk' = [track\<lparr>t_filter := ((1, 0, 0), [0, 1])\<rparr>] \<and>
          map t_miss_count (tk_tracks tk') = [1] \<and>
          map t_state (tk_tracks tk') = [Confirmed]))"
  by (simp add: Let_def Tracker_update_def calculateCost_def distance_score_def isLocated_def
      isDetected_def location_value_def feature_def feature_add_def iszero_float_def new_Robot_def
      setDetection_def empty_Robot_def score_map_of_def count_label_def shift_armor_def
      setLocation_def match_track_def matched_track_def kNotMatched_def setTrack_def
      isTentative_def isConfirmed_def isDeleted_def unmatched_robot_indices_def erase_at_def
      eval_nat_numeral)

lemma unmatched_track_deletes:
  "(t_state track = Tentative \<longrightarrow> t_state (unmatched_track tk track) = Deleted) \<and>
   (t_state track = Confirmed \<and> tk_miss_thresh tk \<le> t_miss_count track + 1 \<longrightarrow>
      t_state (unmatched_track tk track) = Deleted)"
  by (simp add: unmatched_track_def isTentative_def isConfirmed_def setState_def Let_def)

text \<open>
  Claim C7. When \<open>Tracker::update\<close> returns, no track of the tracker's list is in the
  Deleted state: the tracks deleted during the update have been erased.
\<close>

theorem Tracker_update_no_deleted:
  assumes "Tracker_update ops auction tk robots timestamp = Inr (tk', robots')"
  shows "\<forall>track\<in>set (tk_tracks tk'). t_state track \<noteq> Deleted"
  using assms
  by (auto simp: Tracker_update_def Let_def isDeleted_def split: sum.splits prod.splits)

text \<open>
  A run with an unmatched Tentative track, an unmatched Confirmed track whose
  \<open>miss_count\<close> reaches \<open>miss_thresh = 2\<close>, a Confirmed track matched to the first robot
  and a second robot that starts a new track: the two deleted tracks are gone.
\<close>

theorem Tracker_update_no_deleted_witness:
  "\<exists>tk' robots'.
     Tracker_update
       \<lparr>op_predict = (\<lambda>ts f. f), op_update = (\<lambda>p feat f. (p, feat)),
        op_init = (\<lambda>p feat ts. (p, feat)), op_label = (\<lambda>f. 1), op_location = fst,
        op_feature = snd\<rparr>
       (\<lambda>cost max_iter. [- 1, - 1, 0])
       \<lparr>tk_class_num = 2, tk_init_thresh = 3, tk_miss_thresh = 2, tk_distance_weight = 1,
        tk_feature_weight = 1, tk_max_iter = 100, tk_distance_thresh = 2, tk_latest_id = 3,
        tk_tracks =
          [\<lparr>t_track_id = 0, t_state = Tentative, t_init_count = 1, t_miss_count = 0,
            t_filter = ((5, 5, 0) :: point3, [1, 0 :: real])\<rparr>,
           \<lparr>t_track_id = 1, t_state = Confirmed, t_init_count = 3, t_miss_count = 1,
            t_filter = ((9, 9, 0), [1, 0])\<rparr>,
           \<lparr>t_track_id = 2, t_state = Confirmed, t_init_count = 3, t_miss_count = 0,
            t_filter = ((0, 0, 0), [0, 1])\<rparr>]\<rparr>
       [setLocation (1, 0, 0) (new_Robot
          \<lparr>d_x = 10, d_y = 20, d_width = 100, d_height = 50, d_label = 0, d_confidence = 1\<rparr>
          [\<lparr>d_x = 1, d_y = 2, d_width = 4, d_height = 3, d_label = 1, d_confidence = 1\<rparr>]),
        setLocation (7, 0, 0) (new_Robot
          \<lparr>d_x = 200, d_y = 20, d_width = 100, d_height = 50, d_label = 0, d_confidence = 1\<rparr>
          [\<lparr>d_x = 1, d_y = 2, d_width = 4, d_height = 3, d_label = 0, d_confidence = 1\<rparr>])]
       7 = Inr (tk', robots') \<and>
     map t_track_id (tk_tracks tk') = [2, 3] \<and>
     map t_state (tk_tracks tk') = [Confirmed, Tentative] \<and>
     Deleted \<notin> set (map t_state (tk_tracks tk'))"
proof -
  let ?run = "Tracker_update
       \<lparr>op_predict = (\<lambda>ts f. f), op_update = (\<lambda>p feat f. (p, feat)),
        op_init = (\<lambda>p feat ts. (p, feat)), op_label = (\<lambda>f. 1), op_location = fst,
        op_feature = snd\<rparr>
       (\<lambda>cost max_iter. [- 1, - 1, 0])
       \<lparr>tk_class_num = 2, tk_init_thresh = 3, tk_miss_thresh = 2, tk_distance_weight = 1,
        tk_feature_weight = 1, tk_max_iter = 100, tk_distance_thresh = 2, tk_latest_id = 3,
        tk_tracks =
          [\<lparr>t_track_id = 0, t_state = Tentative, t_init_count = 1, t_miss_count = 0,
            t_filter = ((5, 5, 0) :: point3, [1, 0 :: real])\<rparr>,
           \<lparr>t_track_id = 1, t_state = Confirmed, t_init_count = 3, t_miss_count = 1,
            t_filter = ((9, 9, 0), [1, 0])\<rparr>,
           \<lparr>t_track_id = 2, t_state = Confirmed, t_init_count = 3, t_miss_count = 0,
            t_filter = ((0, 0, 0), [0, 1])\<rparr>]\<rparr>
       [setLocation (1, 0, 0) (new_Robot
          \<lparr>d_x = 10, d_y = 20, d_width = 100, d_height = 50, d_label = 0, d_confidence = 1\<rparr>
          [\<lparr>d_x = 1, d_y = 2, d_width = 4, d_height = 3, d_label = 1, d_confidence = 1\<rparr>]),
        setLocation (7, 0, 0) (new_Robot
          \<lparr>d_x = 200, d_y = 20, d_width = 100, d_height = 50, d_label = 0, d_confidence = 1\<rparr>
          [\<lparr>d_x = 1, d_y = 2, d_width = 4, d_height = 3, d_label = 0, d_confidence = 1\<rparr>])]
       7"
  have "\<exists>tk' robots'. ?run = Inr (tk', robots') \<and> map t_track_id (tk_tracks tk') = [2, 3] \<and>
          map t_state (tk_tracks tk') = [Confirmed, Tentative]"
    by (simp add: Let_def Tracker_update_def calculateCost_def distance_score_def isLocated_def
      isDetected_def location_value_def feature_def feature_add_def iszero_float_def new_Robot_def
      setDetection_def empty_Robot_def score_map_of_def count_label_def shift_armor_def
      setLocation_def match_track_def matched_track_def unmatched_track_def kNotMatched_def
      setTrack_def setState_def new_Track_def
      isTentative_def isConfirmed_def isDeleted_def unmatched_robot_indices_def erase_at_def
      eval_nat_numeral)
  then obtain tk' where "\<exists>robots'. ?run = Inr (tk', robots') \<and>
          map t_track_id (tk_tracks tk') = [2, 3] \<and>
          map t_state (tk_tracks tk') = [Confirmed, Tentative]" ..
  then obtain robots' where all: "?run = Inr (tk', robots') \<and>
          map t_track_id (tk_tracks tk') = [2, 3] \<and>
          map t_state (tk_tracks tk') = [Confirmed, Tentative]" ..
  from all have run: "?run = Inr (tk', robots')" by (rule conjunct1)
  have "\<forall>track\<in>set (tk_tracks tk'). t_state track \<noteq> Deleted"
    using run by (rule Tracker_update_no_deleted)
  then have nodel: "Deleted \<notin> set (map t_state (tk_tracks tk'))" by auto
  have "?run = Inr (tk', robots') \<and>
     map t_track_id (tk_tracks tk') = [2, 3] \<and>
     map t_state (tk_tracks tk') = [Confirmed, Tentative] \<and>
     Deleted \<notin> set (map t_state (tk_tracks tk'))"
    using all nodel by (intro conjI) (erule conjunct1 conjunct2[THEN conjunct1] conjunct2[THEN conjunct2] | assumption)+
  then show ?thesis by (intro exI)
qed

subsection \<open>Locator\<close>

lemma unit_Locator_fields:
  "lc_zoom_factor unit_Locator = 1"
  "lc_image_width_zoomed unit_Locator = 2"
  "lc_image_height_zoomed unit_Locator = 2"
  "lc_queue_size unit_Locator = 3"
  "lc_intrinsic unit_Locator = identity33"
  "lc_intrinsic_inv unit_Locator = identity33"
  "lc_lidar_to_camera_transform unit_Locator = identity44"
  "lc_camera_to_lidar_rotate unit_Locator = identity33"
  "lc_camera_to_lidar_translate unit_Locator = (0, 0, 0)"
  "lc_camera_to_world_transform unit_Locator = identity44"
  "lc_min_depth_diff unit_Locator = 1"
  "lc_max_depth_diff unit_Locator = 10"
  "lc_max_distance unit_Locator = 100"
  "lc_depth_image unit_Locator = blank_image"
  "lc_background_depth_image unit_Locator = blank_image"
  "lc_diff_depth_image unit_Locator = blank_image"
  "lc_depth_images unit_Locator = []"
  "lc_cloud_foreground unit_Locator = []"
  "lc_point_index_map unit_Locator = Map.empty"
  "lc_index_cluster_map unit_Locator = Map.empty"
  "lc_clusters unit_Locator = []"
  by (simp_all add: unit_Locator_def)

lemma blank_image_fields:
  "im_rows blank_image = 2" "im_cols blank_image = 2" "im_pix blank_image p = 0"
  by (simp_all add: blank_image_def)

lemma upto_zero_one: "[0..1::int] = [0, 1]"
  by (simp add: upto_rec1)

lemma set_pix_size [simp]:
  "im_rows (set_pix r c v im) = im_rows im" "im_cols (set_pix r c v im) = im_cols im"
  by (simp_all add: set_pix_def)

lemma run_schedule_append:
  "run_schedule (xs @ ys) tasks lc =
     (case run_schedule xs tasks lc of
        Inl e \<Rightarrow> Inl e
      | Inr (tasks', lc') \<Rightarrow> run_schedule ys tasks' lc')"
  by (induction xs arbitrary: tasks lc) (auto split: sum.splits prod.splits)

lemma three_steps:
  assumes "k < length tasks" and "tasks ! k = Todo point"
  shows "run_schedule [k, k, k] tasks lc =
     (case update_point point lc of
        Inl e \<Rightarrow> Inl e
      | Inr lc' \<Rightarrow> Inr (tasks[k := Finished], lc'))"
proof -
  obtain x y z where p: "point = (x, y, z)" by (cases point)
  obtain u v d where uvd: "lidarToCamera lc (x, y, z) = (u, v, d)"
    by (cases "lidarToCamera lc (x, y, z)")
  show ?thesis
    using assms p uvd
    by (simp add: update_point_def Let_def list_update_same_conv)
qed

lemma cloud_order_runs_update_points:
  "length pre = k \<Longrightarrow>
   run_schedule (cloud_order k (length points)) (pre @ map Todo points) lc =
     (case update_points points lc of
        Inl e \<Rightarrow> Inl e
      | Inr lc' \<Rightarrow> Inr (pre @ replicate (length points) Finished, lc'))"
proof (induction points arbitrary: k pre lc)
  case Nil
  then show ?case by simp
next
  case (Cons point points)
  let ?tasks = "pre @ Todo point # map Todo points"
  have k: "k < length ?tasks" "?tasks ! k = Todo point"
    using Cons.prems by (simp_all add: nth_append)
  have split: "cloud_order k (length (point # points)) =
      [k, k, k] @ cloud_order (Suc k) (length points)"
    by simp
  have upd: "?tasks[k := Finished] = (pre @ [Finished]) @ map Todo points"
    using Cons.prems by (simp add: list_update_append)
  have rest: "run_schedule (cloud_order (Suc k) (length points))
        (pre @ Finished # map Todo points) lc1 =
      (case update_points points lc1 of
        Inl e \<Rightarrow> Inl e
      | Inr lc' \<Rightarrow> Inr (pre @ Finished # replicate (length points) Finished, lc'))" for lc1
    using Cons.IH[of "pre @ [Finished]" "Suc k" lc1] Cons.prems
    by (cases "update_points points lc1") simp_all
  have three: "run_schedule [k, k, k] ?tasks lc =
     (case update_point point lc of
        Inl e \<Rightarrow> Inl e
      | Inr lc' \<Rightarrow> Inr ((pre @ [Finished]) @ map Todo points, lc'))"
    by (simp only: three_steps[OF k] upd)
  have tasks: "pre @ map Todo (point # points) = ?tasks" by simp
  show ?case
  proof (cases "update_point point lc")
    case (Inl e)
    then show ?thesis
      unfolding split tasks run_schedule_append three by simp
  next
    case (Inr lc1)
    then show ?thesis
      unfolding split tasks run_schedule_append three
      by (simp add: rest[of lc1] replicate_app_Cons_same split: sum.splits)
  qed
qed

lemma cloud_order_is_sequential:
  "Locator_update_scheduled (cloud_order 0 (length (case cloud of None \<Rightarrow> [] | Some points \<Rightarrow> points)))
     cloud lc = Some (Locator_update cloud lc)"
proof (cases cloud)
  case None
  then show ?thesis by (simp add: Locator_update_scheduled_def Locator_update_def)
next
  case (Some points)
  have run: "run_schedule (cloud_order 0 (length points)) (map Todo points) lc1 =
     (case update_points points lc1 of
        Inl e \<Rightarrow> Inl e
      | Inr lc' \<Rightarrow> Inr (replicate (length points) Finished, lc'))" for lc1
    using cloud_order_runs_update_points[OF list.size(3), of points lc1, unfolded append_Nil] .
  have fin: "list_all (\<lambda>task. task = Finished) (replicate n Finished)" for n
    by (simp add: list_all_iff)
  show ?thesis
    using Some
    by (simp add: Locator_update_scheduled_def Locator_update_def run fin Let_def
        split: sum.splits)
qed

lemma task_step_background:
  assumes "task_step task lc = Inr (task', lc')"
    and "\<forall>q. base q \<le> im_pix (lc_background_depth_image lc) q"
    and "\<forall>row col d. task = WriteBackground row col d \<longrightarrow> base (row, col) < d"
  shows "(\<forall>q. base q \<le> im_pix (lc_background_depth_image lc') q) \<and>
         (\<forall>row col d. task' = WriteBackground row col d \<longrightarrow> base (row, col) < d)"
proof (cases task)
  case (Todo point)
  obtain x y z where p: "point = (x, y, z)" by (cases point)
  obtain u v d where uvd: "lidarToCamera lc (x, y, z) = (u, v, d)"
    by (cases "lidarToCamera lc (x, y, z)")
  have key: "base (row, col) < e"
    if "im_pix (lc_background_depth_image lc) (row, col) < e" for row col e
    using assms(2) that by (meson le_less_trans)
  show ?thesis
    using assms(1,2) Todo p uvd key by (auto split: if_splits)
next
  case (WriteBackground row col d)
  then have "base (row, col) < d" using assms(3) by blast
  then show ?thesis
    using assms(1,2) WriteBackground by (auto simp: set_pix_def less_imp_le)
next
  case (WriteDepth row col d)
  then show ?thesis using assms by auto
next
  case Finished
  then show ?thesis using assms by auto
qed

lemma run_schedule_background:
  "run_schedule schedule tasks lc = Inr (tasks', lc') \<Longrightarrow>
   \<forall>q. base q \<le> im_pix (lc_background_depth_image lc) q \<Longrightarrow>
   pending_above base tasks \<Longrightarrow>
   (\<forall>q. base q \<le> im_pix (lc_background_depth_image lc') q) \<and> pending_above base tasks'"
proof (induction schedule arbitrary: tasks lc)
  case Nil
  then show ?case by simp
next
  case (Cons i schedule)
  show ?case
  proof (cases "i < length tasks")
    case False
    then show ?thesis using Cons by simp
  next
    case True
    from Cons.prems(1) True obtain t1 lc1 where
        step: "task_step (tasks ! i) lc = Inr (t1, lc1)"
        and rest: "run_schedule schedule (tasks[i := t1]) lc1 = Inr (tasks', lc')"
      by (auto split: sum.splits prod.splits)
    have pend: "\<forall>row col d. tasks ! i = WriteBackground row col d \<longrightarrow> base (row, col) < d"
      using Cons.prems(3) nth_mem[OF True] by (auto simp: pending_above_def)
    from task_step_background[OF step Cons.prems(2) pend]
    have bg1: "\<forall>q. base q \<le> im_pix (lc_background_depth_image lc1) q"
      and t1: "\<forall>row col d. t1 = WriteBackground row col d \<longrightarrow> base (row, col) < d"
      by blast+
    have "pending_above base (tasks[i := t1])"
      unfolding pending_above_def
    proof (intro ballI)
      fix task assume "task \<in> set (tasks[i := t1])"
      then have "task = t1 \<or> task \<in> set tasks"
        using set_update_subset_insert[of tasks i t1] by auto
      then show "\<forall>row col d. task = WriteBackground row col d \<longrightarrow> base (row, col) < d"
        using t1 Cons.prems(3) by (auto simp: pending_above_def)
    qed
    from Cons.IH[OF rest bg1 this] show ?thesis .
  qed
qed

lemma scheduled_update_background:
  assumes "Locator_update_scheduled schedule cloud lc = Some (Inr lc')"
  shows "im_pix (lc_background_depth_image lc) q \<le> im_pix (lc_background_depth_image lc') q"
proof (cases "cloud = None \<or> cloud = Some []")
  case True
  then show ?thesis using assms by (auto simp: Locator_update_scheduled_def)
next
  case False
  then obtain points where c: "cloud = Some points" "points \<noteq> []" by (cases cloud) auto
  let ?lc1 = "lc\<lparr>lc_depth_image := setTo 0 (lc_depth_image lc),
                   lc_diff_depth_image := setTo 0 (lc_diff_depth_image lc)\<rparr>"
  from assms c obtain tasks lc2 where
      run: "run_schedule schedule (map Todo points) ?lc1 = Inr (tasks, lc2)"
      and bg: "lc_background_depth_image lc' = lc_background_depth_image lc2"
    by (auto simp: Locator_update_scheduled_def Let_def split: sum.splits prod.splits if_splits)
  have start: "\<forall>q. im_pix (lc_background_depth_image lc) q \<le> im_pix (lc_background_depth_image ?lc1) q"
    by simp
  have pend: "pending_above (im_pix (lc_background_depth_image lc)) (map Todo points)"
    by (auto simp: pending_above_def)
  from run_schedule_background[OF run start pend]
  have "\<forall>q. im_pix (lc_background_depth_image lc) q \<le> im_pix (lc_background_depth_image lc2) q"
    by (rule conjunct1)
  then show ?thesis unfolding bg by (rule spec)
qed

text \<open>
  Claim C8 fails on the code. The loop over the cloud runs under
  \<open>std::execution::par_unseq\<close> and the read, the comparison and the write of
  \<open>background_depth\<close> are not synchronised. Two points of one cloud hit the pixel in row
  0 and column 1 with the depths 5 and 3. In the schedule below both pass the comparison
  against the stored 0 before either writes; the first then stores 5 and the second stores
  3 over it. The update returns with 3 in the cell, where the run in the order of the cloud
  leaves 5. What every run keeps is \<open>scheduled_update_background\<close>: the value when the
  update returns is not below the value when it was called.
\<close>

theorem parallel_update_overwrites_maximum:
  "(\<exists>lc1 lc2.
      run_schedule [0, 1, 0] (map Todo [(5, 0, 5), (3, 0, 3)]) unit_Locator =
        Inr ([WriteDepth 0 1 5, WriteBackground 0 1 3], lc1) \<and>
      im_pix (lc_background_depth_image lc1) (0, 1) = 5 \<and>
      run_schedule [1] [WriteDepth 0 1 5, WriteBackground 0 1 3] lc1 =
        Inr ([WriteDepth 0 1 5, WriteDepth 0 1 3], lc2) \<and>
      im_pix (lc_background_depth_image lc2) (0, 1) = 3) \<and>
   (\<exists>lc'. Locator_update_scheduled [0, 1, 0, 1, 0, 1] (Some [(5, 0, 5), (3, 0, 3)]) unit_Locator =
            Some (Inr lc') \<and>
          im_pix (lc_background_depth_image lc') (0, 1) = 3) \<and>
   (\<exists>lc'. Locator_update (Some [(5, 0, 5), (3, 0, 3)]) unit_Locator = Inr lc' \<and>
          im_pix (lc_background_depth_image lc') (0, 1) = 5)"
  by (simp add: Locator_update_scheduled_def Locator_update_def update_point_def
      lidarToCamera_def unit_Locator_fields identity33_def identity44_def blank_image_fields
      iszero_float_def in_image_def trunc_def set_pix_def setTo_def Let_def)

text \<open>
  Claim C2 fails on the code. A point that projects to \<open>u = image_width_zoomed\<close> exactly
  is not skipped, because the test is \<open>u > image_width_zoomed_\<close>, and the write addresses
  column \<open>image_width_zoomed\<close>, one past the last column. Here the image is 2 pixels
  wide and the point \<open>(2, 0, 1)\<close> projects to \<open>(u, v, d) = (2, 0, 1)\<close>.
\<close>

theorem update_writes_out_of_bounds:
  "lidarToCamera unit_Locator (2, 0, 1) = (2, 0, 1) \<and>
   lc_image_width_zoomed unit_Locator = 2 \<and>
   Locator_update (Some [(2, 0, 1)]) unit_Locator = Inl IndexOutOfRange"
  by (simp add: Locator_update_def update_point_def lidarToCamera_def unit_Locator_fields
      identity33_def identity44_def blank_image_fields iszero_float_def in_image_def trunc_def
      set_pix_def setTo_def Let_def)

lemma rect_and_image:
  assumes "rect_and a (0, 0, W, H) = (x, y, w, h)"
  shows "(x, y, w, h) = (0, 0, 0, 0) \<or>
         (0 \<le> x \<and> 0 \<le> y \<and> 0 < w \<and> 0 < h \<and> x + w \<le> W \<and> y + h \<le> H)"
proof -
  obtain ax ay aw ah where a: "a = (ax, ay, aw, ah)" by (cases a)
  show ?thesis
    using assms unfolding a rect_and_def Let_def
    by (auto split: if_splits)
qed

lemma zoom_in_image:
  assumes "zoom lc rect = (x, y, w, h)" and "v \<in> set [y..y + h - 1]" and "u \<in> set [x..x + w - 1]"
  shows "0 \<le> v \<and> v < lc_image_height_zoomed lc \<and> 0 \<le> u \<and> u < lc_image_width_zoomed lc"
proof -
  obtain rx ry rw rh where r: "rect = (rx, ry, rw, rh)" by (cases rect)
  from assms(1) obtain a where
    "rect_and a (0, 0, lc_image_width_zoomed lc, lc_image_height_zoomed lc) = (x, y, w, h)"
    unfolding r zoom_def Let_def by auto
  from rect_and_image[OF this] show ?thesis using assms(2,3) by auto
qed

lemma search_cols_ok:
  assumes "\<forall>u\<in>set us. in_image (lc_diff_depth_image lc) v u \<and>
             (iszero_float (im_pix (lc_diff_depth_image lc) (v, u)) \<or> lc_point_index_map lc (u, v) \<noteq> None)"
  shows "\<exists>candidates'. search_cols lc v us candidates = Inr candidates'"
  using assms
proof (induction us arbitrary: candidates)
  case Nil
  then show ?case by simp
next
  case (Cons u us)
  have "\<exists>c. search_pixel lc v u candidates = Inr c"
    using Cons.prems by (auto simp: search_pixel_def Let_def)
  then obtain c where c: "search_pixel lc v u candidates = Inr c" ..
  have "\<exists>candidates'. search_cols lc v us c = Inr candidates'"
    using Cons.prems by (intro Cons.IH) simp
  then show ?case using c by simp
qed

lemma search_rows_ok:
  assumes "\<forall>v\<in>set vs. \<forall>u\<in>set us. in_image (lc_diff_depth_image lc) v u \<and>
             (iszero_float (im_pix (lc_diff_depth_image lc) (v, u)) \<or> lc_point_index_map lc (u, v) \<noteq> None)"
  shows "\<exists>candidates'. search_rows lc vs us candidates = Inr candidates'"
  using assms
proof (induction vs arbitrary: candidates)
  case Nil
  then show ?case by simp
next
  case (Cons v vs)
  have "\<exists>c. search_cols lc v us candidates = Inr c"
    using Cons.prems by (intro search_cols_ok) simp
  then obtain c where c: "search_cols lc v us candidates = Inr c" ..
  have "\<exists>candidates'. search_rows lc vs us c = Inr candidates'"
    using Cons.prems by (intro Cons.IH) simp
  then show ?case using c by simp
qed

lemma search_cols_zero:
  assumes "\<forall>u\<in>set us. in_image (lc_diff_depth_image lc) v u \<and>
             iszero_float (im_pix (lc_diff_depth_image lc) (v, u))"
  shows "search_cols lc v us candidates = Inr candidates"
  using assms by (induction us) (auto simp: search_pixel_def Let_def)

lemma search_rows_zero:
  assumes "\<forall>v\<in>set vs. \<forall>u\<in>set us. in_image (lc_diff_depth_image lc) v u \<and>
             iszero_float (im_pix (lc_diff_depth_image lc) (v, u))"
  shows "search_rows lc vs us candidates = Inr candidates"
  using assms by (induction vs) (auto simp: search_cols_zero)

lemma emplace_dom: "dom (emplace k v m) = insert k (dom m)"
  by (auto simp: emplace_def split: if_splits)

lemma cluster_pixel_dom:
  "dom (snd (cluster_pixel lc i j st)) =
     (if iszero_float (im_pix (lc_diff_depth_image lc) (i, j)) then dom (snd st)
      else insert (j, i) (dom (snd st)))"
  by (cases st) (simp add: cluster_pixel_def Let_def emplace_dom)

lemma cluster_cols_dom:
  "dom (snd (fold (\<lambda>j st'. cluster_pixel lc i j st') js st)) =
     dom (snd st) \<union> {(j, i) | j. j \<in> set js \<and> \<not> iszero_float (im_pix (lc_diff_depth_image lc) (i, j))}"
  by (induction js arbitrary: st) (auto simp: cluster_pixel_dom split: if_splits)

lemma cluster_rows_dom:
  "dom (snd (fold (\<lambda>i st. fold (\<lambda>j st'. cluster_pixel lc i j st') js st) is st0)) =
     dom (snd st0) \<union>
     {(j, i) | i j. i \<in> set is \<and> j \<in> set js \<and> \<not> iszero_float (im_pix (lc_diff_depth_image lc) (i, j))}"
  by (induction "is" arbitrary: st0) (auto simp: cluster_cols_dom)

lemma cluster_scan_dom:
  "dom (snd (cluster_scan lc)) =
     {(u, v) | v u. in_image (lc_diff_depth_image lc) v u \<and>
                    \<not> iszero_float (im_pix (lc_diff_depth_image lc) (v, u))}"
  unfolding cluster_scan_def cluster_rows_dom
  by (auto simp: in_image_def)

lemma Locator_cluster_fields:
  "lc_diff_depth_image (Locator_cluster extraction lc) = lc_diff_depth_image lc \<and>
   lc_point_index_map (Locator_cluster extraction lc) = snd (cluster_scan lc) \<and>
   lc_image_width_zoomed (Locator_cluster extraction lc) = lc_image_width_zoomed lc \<and>
   lc_image_height_zoomed (Locator_cluster extraction lc) = lc_image_height_zoomed lc"
  by (simp add: Locator_cluster_def Let_def split: prod.splits)

lemma update_point_sized:
  assumes "update_point point lc = Inr lc'" and "Locator_sized lc"
  shows "Locator_sized lc'"
proof -
  obtain x y z where p: "point = (x, y, z)" by (cases point)
  obtain u v d where uvd: "lidarToCamera lc (x, y, z) = (u, v, d)"
    by (cases "lidarToCamera lc (x, y, z)")
  show ?thesis
    using assms p uvd
    by (auto simp: update_point_def Let_def Locator_sized_def has_zoomed_size_def
        split: if_splits)
qed

lemma update_points_sized:
  "update_points points lc = Inr lc' \<Longrightarrow> Locator_sized lc \<Longrightarrow> Locator_sized lc'"
proof (induction points arbitrary: lc)
  case Nil
  then show ?case by simp
next
  case (Cons point points)
  from Cons.prems(1) obtain lc1 where step: "update_point point lc = Inr lc1"
      and rest: "update_points points lc1 = Inr lc'"
    by (auto split: sum.splits)
  have "Locator_sized lc1" using step Cons.prems(2) by (rule update_point_sized)
  with rest show ?case by (rule Cons.IH)
qed

lemma diff_pixel_size:
  "im_rows (diff_pixel lc im i j d) = im_rows d \<and> im_cols (diff_pixel lc im i j d) = im_cols d"
  by (simp add: diff_pixel_def Let_def)

lemma diff_cols_size:
  "im_rows (fold (\<lambda>j acc'. diff_pixel lc im i j acc') js d) = im_rows d \<and>
   im_cols (fold (\<lambda>j acc'. diff_pixel lc im i j acc') js d) = im_cols d"
  by (induction js arbitrary: d) (simp_all add: diff_pixel_size)

lemma diff_of_image_size:
  "im_rows (diff_of_image lc im d) = im_rows d \<and> im_cols (diff_of_image lc im d) = im_cols d"
proof -
  have "im_rows (fold (\<lambda>i acc. fold (\<lambda>j acc'. diff_pixel lc im i j acc') js acc) is d) = im_rows d \<and>
        im_cols (fold (\<lambda>i acc. fold (\<lambda>j acc'. diff_pixel lc im i j acc') js acc) is d) = im_cols d"
    for js "is"
    by (induction "is" arbitrary: d) (simp_all add: diff_cols_size)
  then show ?thesis by (simp add: diff_of_image_def)
qed

lemma diff_queue_size:
  "im_rows (fold (diff_of_image lc) queue d) = im_rows d \<and>
   im_cols (fold (diff_of_image lc) queue d) = im_cols d"
  by (induction queue arbitrary: d) (simp_all add: diff_of_image_size)

lemma Locator_update_sized:
  assumes "Locator_update cloud lc = Inr lc'" and "Locator_sized lc"
  shows "Locator_sized lc'"
proof -
  let ?lc1 = "lc\<lparr>lc_depth_image := setTo 0 (lc_depth_image lc),
                   lc_diff_depth_image := setTo 0 (lc_diff_depth_image lc)\<rparr>"
  have s1: "Locator_sized ?lc1"
    using assms(2) by (simp add: Locator_sized_def has_zoomed_size_def setTo_def)
  show ?thesis
  proof (cases "cloud = None \<or> cloud = Some []")
    case True
    then have "lc' = ?lc1" using assms(1) by (auto simp: Locator_update_def)
    then show ?thesis using s1 by simp
  next
    case False
    then obtain points where c: "cloud = Some points" "points \<noteq> []" by (cases cloud) auto
    from assms(1) c obtain lc2 where pts: "update_points points ?lc1 = Inr lc2"
      and res: "lc' = lc2\<lparr>lc_depth_images :=
                   (if length (lc_depth_images lc2 @ [lc_depth_image lc2]) > lc_queue_size lc2
                    then tl (lc_depth_images lc2 @ [lc_depth_image lc2])
                    else lc_depth_images lc2 @ [lc_depth_image lc2]),
                 lc_diff_depth_image :=
                   fold (diff_of_image (lc2\<lparr>lc_depth_images :=
                     (if length (lc_depth_images lc2 @ [lc_depth_image lc2]) > lc_queue_size lc2
                      then tl (lc_depth_images lc2 @ [lc_depth_image lc2])
                      else lc_depth_images lc2 @ [lc_depth_image lc2])\<rparr>))
                     (if length (lc_depth_images lc2 @ [lc_depth_image lc2]) > lc_queue_size lc2
                      then tl (lc_depth_images lc2 @ [lc_depth_image lc2])
                      else lc_depth_images lc2 @ [lc_depth_image lc2])
                     (lc_diff_depth_image lc2)\<rparr>"
      by (auto simp: Locator_update_def Let_def split: sum.splits)
    have s2: "Locator_sized lc2" using pts s1 by (rule update_points_sized)
    show ?thesis
      unfolding res using s2
      by (simp add: Locator_sized_def has_zoomed_size_def diff_queue_size)
  qed
qed

lemma Locator_cluster_sized:
  "Locator_sized lc \<Longrightarrow> Locator_sized (Locator_cluster extraction lc)"
  by (simp add: Locator_cluster_def Let_def Locator_sized_def has_zoomed_size_def
      split: prod.splits)

text \<open>
  Claim C10. After \<open>cluster\<close>, every pixel of the difference image whose value is not
  zero has an entry in the pixel-to-index map, under the key \<open>(u, v)\<close>; and \<open>search\<close>,
  run on the clustered Locator for any robot, returns: no lookup misses its key and no
  pixel outside the image is read. The images have the zoomed size, as the constructor
  creates them.
\<close>

theorem search_after_cluster_finds_keys:
  assumes "Locator_sized lc"
  shows "(\<forall>v u. in_image (lc_diff_depth_image (Locator_cluster extraction lc)) v u \<and>
                \<not> iszero_float (im_pix (lc_diff_depth_image (Locator_cluster extraction lc)) (v, u)) \<longrightarrow>
                lc_point_index_map (Locator_cluster extraction lc) (u, v) \<noteq> None) \<and>
         (\<exists>robot'. Locator_search rect_cast (Locator_cluster extraction lc) robot = Inr robot')"
proof -
  let ?lc = "Locator_cluster extraction lc"
  have diff: "lc_diff_depth_image ?lc = lc_diff_depth_image lc"
    and pmap: "lc_point_index_map ?lc = snd (cluster_scan lc)"
    using Locator_cluster_fields[of extraction lc] by simp_all
  have keys: "lc_point_index_map ?lc (u, v) \<noteq> None"
    if "in_image (lc_diff_depth_image ?lc) v u"
       "\<not> iszero_float (im_pix (lc_diff_depth_image ?lc) (v, u))" for v u
  proof -
    have "(u, v) \<in> dom (snd (cluster_scan lc))"
      unfolding cluster_scan_dom using that diff by auto
    then show ?thesis using pmap by auto
  qed
  have sized: "has_zoomed_size ?lc (lc_diff_depth_image ?lc)"
    using Locator_cluster_sized[OF assms, of extraction] by (simp add: Locator_sized_def)
  have returns: "\<exists>robot'. Locator_search rect_cast ?lc robot = Inr robot'"
  proof (cases "r_rect robot")
    case None
    then show ?thesis by (simp add: Locator_search_def)
  next
    case (Some robot_rect)
    obtain x y w h where z: "zoom ?lc (rect_cast robot_rect) = (x, y, w, h)"
      by (cases "zoom ?lc (rect_cast robot_rect)")
    have "\<forall>v\<in>set [y..y + h - 1]. \<forall>u\<in>set [x..x + w - 1].
            in_image (lc_diff_depth_image ?lc) v u \<and>
            (iszero_float (im_pix (lc_diff_depth_image ?lc) (v, u)) \<or>
             lc_point_index_map ?lc (u, v) \<noteq> None)"
    proof (intro ballI)
      fix v u assume vu: "v \<in> set [y..y + h - 1]" "u \<in> set [x..x + w - 1]"
      have inside: "in_image (lc_diff_depth_image ?lc) v u"
        using zoom_in_image[OF z vu] sized by (simp add: in_image_def has_zoomed_size_def)
      then show "in_image (lc_diff_depth_image ?lc) v u \<and>
            (iszero_float (im_pix (lc_diff_depth_image ?lc) (v, u)) \<or>
             lc_point_index_map ?lc (u, v) \<noteq> None)"
        using keys[of v u] by blast
    qed
    from search_rows_ok[OF this, of "[]"] obtain candidates where
      c: "search_rows ?lc [y..y + h - 1] [x..x + w - 1] [] = Inr candidates" ..
    show ?thesis
      using Some z c
      by (simp add: Locator_search_def split: option.splits prod.splits)
  qed
  show ?thesis using keys returns by blast
qed

text \<open>
  Claim C9. Missing data is not fatal and raises nothing. \<open>update\<close> on a null or an empty
  cloud returns with the depth image and the difference image entirely zero. \<open>search\<close> on
  a robot without a rect returns the robot as it was, and so it does when the candidate
  set of the scaled rect is empty, in particular when no pixel of the scaled rect is
  non-zero; the robot's location stays unset.
\<close>

theorem Locator_missing_data_nonfatal:
  "(\<forall>cloud. cloud = None \<or> cloud = Some [] \<longrightarrow>
      (\<exists>lc'. Locator_update cloud lc = Inr lc' \<and>
             (\<forall>p. im_pix (lc_depth_image lc') p = 0) \<and>
             (\<forall>p. im_pix (lc_diff_depth_image lc') p = 0))) \<and>
   (r_rect robot = None \<longrightarrow> Locator_search rect_cast lc robot = Inr robot) \<and>
   (\<forall>robot_rect x y w h.
      r_rect robot = Some robot_rect \<and> zoom lc (rect_cast robot_rect) = (x, y, w, h) \<and>
      search_rows lc [y..y + h - 1] [x..x + w - 1] [] = Inr [] \<longrightarrow>
      Locator_search rect_cast lc robot = Inr robot) \<and>
   (\<forall>robot_rect x y w h.
      Locator_sized lc \<and>
      r_rect robot = Some robot_rect \<and> zoom lc (rect_cast robot_rect) = (x, y, w, h) \<and>
      (\<forall>v\<in>set [y..y + h - 1]. \<forall>u\<in>set [x..x + w - 1].
         iszero_float (im_pix (lc_diff_depth_image lc) (v, u))) \<longrightarrow>
      Locator_search rect_cast lc robot = Inr robot)"
proof (intro conjI allI impI)
  fix cloud :: "point3 list option"
  assume "cloud = None \<or> cloud = Some []"
  then show "\<exists>lc'. Locator_update cloud lc = Inr lc' \<and>
             (\<forall>p. im_pix (lc_depth_image lc') p = 0) \<and>
             (\<forall>p. im_pix (lc_diff_depth_image lc') p = 0)"
    by (auto simp: Locator_update_def setTo_def)
next
  assume "r_rect robot = None"
  then show "Locator_search rect_cast lc robot = Inr robot"
    by (simp add: Locator_search_def)
next
  fix robot_rect x y w h
  assume "r_rect robot = Some robot_rect \<and> zoom lc (rect_cast robot_rect) = (x, y, w, h) \<and>
      search_rows lc [y..y + h - 1] [x..x + w - 1] [] = Inr []"
  then show "Locator_search rect_cast lc robot = Inr robot"
    by (simp add: Locator_search_def)
next
  fix robot_rect x y w h
  assume a: "Locator_sized lc \<and>
      r_rect robot = Some robot_rect \<and> zoom lc (rect_cast robot_rect) = (x, y, w, h) \<and>
      (\<forall>v\<in>set [y..y + h - 1]. \<forall>u\<in>set [x..x + w - 1].
         iszero_float (im_pix (lc_diff_depth_image lc) (v, u)))"
  then have z: "zoom lc (rect_cast robot_rect) = (x, y, w, h)" by blast
  have "\<forall>v\<in>set [y..y + h - 1]. \<forall>u\<in>set [x..x + w - 1].
          in_image (lc_diff_depth_image lc) v u \<and> iszero_float (im_pix (lc_diff_depth_image lc) (v, u))"
  proof (intro ballI)
    fix v u assume vu: "v \<in> set [y..y + h - 1]" "u \<in> set [x..x + w - 1]"
    have "in_image (lc_diff_depth_image lc) v u"
      using zoom_in_image[OF z vu] a
      by (simp add: in_image_def has_zoomed_size_def Locator_sized_def)
    then show "in_image (lc_diff_depth_image lc) v u \<and>
        iszero_float (im_pix (lc_diff_depth_image lc) (v, u))"
      using a vu by blast
  qed
  then have "search_rows lc [y..y + h - 1] [x..x + w - 1] [] = Inr []"
    by (rule search_rows_zero)
  then show "Locator_search rect_cast lc robot = Inr robot"
    using a by (simp add: Locator_search_def)
qed

text \<open>
  A Locator whose depth and difference images hold a value before the update: a null
  cloud and an empty cloud leave both zero. A robot without a rect, and a robot whose
  rect covers an image without foreground, come back unchanged and unlocated.
\<close>

theorem Locator_missing_data_nonfatal_witness:
  "(let lc = unit_Locator\<lparr>lc_depth_image := set_pix 0 1 4 blank_image,
                           lc_diff_depth_image := set_pix 0 1 4 blank_image\<rparr>;
        rect_cast = (\<lambda>(x, y, w, h). (\<lfloor>x\<rfloor>, \<lfloor>y\<rfloor>, \<lfloor>w\<rfloor>, \<lfloor>h\<rfloor>));
        robot = \<lparr>r_rect = Some (0, 0, 2, 2), r_label = Some 1, r_confidence = Some 1,
                 r_armors = Some [], r_location = None, r_track_state = None\<rparr>
    in im_pix (lc_depth_image lc) (0, 1) = 4 \<and>
       (\<exists>lc'. Locator_update None lc = Inr lc' \<and>
              im_pix (lc_depth_image lc') (0, 1) = 0 \<and>
              im_pix (lc_diff_depth_image lc') (0, 1) = 0) \<and>
       (\<exists>lc'. Locator_update (Some []) lc = Inr lc' \<and>
              im_pix (lc_depth_image lc') (0, 1) = 0 \<and>
              im_pix (lc_diff_depth_image lc') (0, 1) = 0) \<and>
       Locator_search rect_cast lc (robot\<lparr>r_rect := None\<rparr>) = Inr (robot\<lparr>r_rect := None\<rparr>) \<and>
       Locator_sized unit_Locator \<and>
       zoom unit_Locator (rect_cast (0, 0, 2, 2)) = (0, 0, 2, 2) \<and>
       search_rows unit_Locator [0..1] [0..1] [] = Inr [] \<and>
       Locator_search rect_cast unit_Locator robot = Inr robot \<and>
       r_location robot = None)"
  using Locator_missing_data_nonfatal
      [of "unit_Locator\<lparr>lc_depth_image := set_pix 0 1 4 blank_image,
                           lc_diff_depth_image := set_pix 0 1 4 blank_image\<rparr>"
          "\<lparr>r_rect = None, r_label = Some 1, r_confidence = Some 1,
                 r_armors = Some [], r_location = None, r_track_state = None\<rparr>"
          "\<lambda>(x, y, w, h). (\<lfloor>x\<rfloor>, \<lfloor>y\<rfloor>, \<lfloor>w\<rfloor>, \<lfloor>h\<rfloor>)"]
    Locator_missing_data_nonfatal
      [of unit_Locator
          "\<lparr>r_rect = Some (0, 0, 2, 2), r_label = Some 1, r_confidence = Some 1,
                 r_armors = Some [], r_location = None, r_track_state = None\<rparr>"
          "\<lambda>(x, y, w, h). (\<lfloor>x\<rfloor>, \<lfloor>y\<rfloor>, \<lfloor>w\<rfloor>, \<lfloor>h\<rfloor>)"]
  by (simp add: Let_def Locator_update_def setTo_def Locator_sized_def has_zoomed_size_def
      Locator_search_def zoom_def rect_and_def trunc_def search_pixel_def in_image_def
      iszero_float_def unit_Locator_fields identity33_def identity44_def blank_image_fields set_pix_def
      upto_zero_one)

lemma set_pix_same: "im_pix (set_pix r c v im) (r, c) = v"
  by (simp add: set_pix_def)

lemma cluster_example:
  "cluster_scan (unit_Locator\<lparr>lc_diff_depth_image := set_pix 0 1 4 blank_image\<rparr>) =
     ([(4, 0, 4)], [(1, 0) \<mapsto> 0])"
  by (simp add: cluster_scan_def cluster_pixel_def emplace_def
        cameraToLidar_def iszero_float_def upto_zero_one
        unit_Locator_fields identity33_def blank_image_fields set_pix_def)

lemma cluster_example_locator:
  "Locator_cluster (\<lambda>cloud. [[0]]) (unit_Locator\<lparr>lc_diff_depth_image := set_pix 0 1 4 blank_image\<rparr>) =
     unit_Locator\<lparr>lc_diff_depth_image := set_pix 0 1 4 blank_image,
                  lc_point_index_map := [(1, 0) \<mapsto> 0],
                  lc_index_cluster_map := [0 \<mapsto> 0],
                  lc_clusters := [[0]],
                  lc_cloud_foreground := [(4, 0, 4)]\<rparr>"
  by (simp add: Locator_cluster_def cluster_example emplace_def Let_def)

lemma search_example:
  "Locator_search (\<lambda>(x, y, w, h). (\<lfloor>x\<rfloor>, \<lfloor>y\<rfloor>, \<lfloor>w\<rfloor>, \<lfloor>h\<rfloor>))
     (unit_Locator\<lparr>lc_diff_depth_image := set_pix 0 1 4 blank_image,
                  lc_point_index_map := [(1, 0) \<mapsto> 0],
                  lc_index_cluster_map := [0 \<mapsto> 0],
                  lc_clusters := [[0]],
                  lc_cloud_foreground := [(4, 0, 4)]\<rparr>)
     \<lparr>r_rect = Some (0, 0, 2, 2), r_label = Some 1, r_confidence = Some 1,
      r_armors = Some [], r_location = None, r_track_state = None\<rparr> =
   Inr \<lparr>r_rect = Some (0, 0, 2, 2), r_label = Some 1, r_confidence = Some 1,
      r_armors = Some [], r_location = Some (4, 0, 4), r_track_state = None\<rparr>"
  by (simp add: Locator_search_def zoom_def rect_and_def trunc_def search_pixel_def in_image_def
        cameraToLidar_def lidarToWorld_def centroid_def setLocation_def iszero_float_def
        upto_zero_one unit_Locator_fields identity33_def identity44_def blank_image_fields set_pix_def)

text \<open>
  A Locator whose difference image has one non-zero pixel, in row 0 and column 1, and a
  robot whose rect covers the image: the pixel has the foreground index 0 under the key
  \<open>(1, 0)\<close>, and the robot is located at the back-projection of the pixel.
\<close>

theorem search_after_cluster_finds_keys_witness:
  "(let lc = unit_Locator\<lparr>lc_diff_depth_image := set_pix 0 1 4 blank_image\<rparr>;
        clustered = Locator_cluster (\<lambda>cloud. [[0]]) lc;
        robot = \<lparr>r_rect = Some (0, 0, 2, 2), r_label = Some 1, r_confidence = Some 1,
                 r_armors = Some [], r_location = None, r_track_state = None\<rparr>
    in Locator_sized lc \<and>
       in_image (lc_diff_depth_image clustered) 0 1 \<and>
       im_pix (lc_diff_depth_image clustered) (0, 1) = 4 \<and>
       lc_point_index_map clustered (1, 0) = Some 0 \<and>
       Locator_search (\<lambda>(x, y, w, h). (\<lfloor>x\<rfloor>, \<lfloor>y\<rfloor>, \<lfloor>w\<rfloor>, \<lfloor>h\<rfloor>)) clustered robot =
         Inr (setLocation (4, 0, 4) robot))"
proof -
  have sized: "Locator_sized (unit_Locator\<lparr>lc_diff_depth_image := set_pix 0 1 4 blank_image\<rparr>)"
    by (simp add: Locator_sized_def has_zoomed_size_def unit_Locator_fields blank_image_fields)
  show ?thesis
    using sized
      search_after_cluster_finds_keys [OF sized, of "\<lambda>cloud. [[0]]"
        "\<lambda>(x, y, w, h). (\<lfloor>x\<rfloor>, \<lfloor>y\<rfloor>, \<lfloor>w\<rfloor>, \<lfloor>h\<rfloor>)"
        "\<lparr>r_rect = Some (0, 0, 2, 2), r_label = Some 1, r_confidence = Some 1,
          r_armors = Some [], r_location = None, r_track_state = None\<rparr>"]
    by (simp add: Let_def cluster_example_locator search_example setLocation_def in_image_def
        set_pix_same blank_image_fields)
qed

end
